theory Spec2Isabelle
  imports Main
begin

section \<open>JavaScript values, thrown values and effects\<close>

text \<open>
  A thrown JavaScript value is either an instance of \<open>Error\<close> (with its \<open>name\<close> and
  \<open>message\<close>) or some other value. \<open>new Error(m)\<close> is \<open>ErrorObj ''Error'' m\<close>.
\<close>

datatype exn = ErrorObj string string | OtherValue string

fun instanceofError :: "exn \<Rightarrow> bool" where
  "instanceofError (ErrorObj n m) = True"
| "instanceofError (OtherValue v) = False"

fun error_name :: "exn \<Rightarrow> string" where
  "error_name (ErrorObj n m) = n"
| "error_name (OtherValue v) = []"

fun error_message :: "exn \<Rightarrow> string" where
  "error_message (ErrorObj n m) = m"
| "error_message (OtherValue v) = []"

definition new_Error :: "string \<Rightarrow> exn" where
  "new_Error m = ErrorObj ''Error'' m"

text \<open>
  Values of type \<open>any\<close> that come out of \<open>JSON.parse\<close> or travel as request and response
  bodies. Only the zero test of a number matters to the code below, so numbers are integers.
  Strings are lists of code units; the characters of this model are the code units below 256.
\<close>

datatype json =
    JNull
  | JBool bool
  | JNum int
  | JStr string
  | JArr "json list"
  | JObj "(string \<times> json) list"

text \<open>Truthiness, \<open>Array.isArray\<close>, \<open>typeof\<close> and own-property lookup (\<open>None\<close> is \<open>undefined\<close>).\<close>

fun truthy :: "json \<Rightarrow> bool" where
  "truthy JNull = False"
| "truthy (JBool b) = b"
| "truthy (JNum n) = (n \<noteq> 0)"
| "truthy (JStr s) = (s \<noteq> [])"
| "truthy (JArr xs) = True"
| "truthy (JObj kvs) = True"

fun isArray :: "json \<Rightarrow> bool" where
  "isArray (JArr xs) = True"
| "isArray v = False"

fun typeof :: "json option \<Rightarrow> string" where
  "typeof None = ''undefined''"
| "typeof (Some JNull) = ''object''"
| "typeof (Some (JBool b)) = ''boolean''"
| "typeof (Some (JNum n)) = ''number''"
| "typeof (Some (JStr s)) = ''string''"
| "typeof (Some (JArr xs)) = ''object''"
| "typeof (Some (JObj kvs)) = ''object''"

fun get_prop :: "json \<Rightarrow> string \<Rightarrow> json option" where
  "get_prop (JObj kvs) k = map_of kvs k"
| "get_prop v k = None"

text \<open>Synchronous code that may throw: \<open>Inl\<close> is the thrown value.\<close>

definition bindE :: "exn + 'a \<Rightarrow> ('a \<Rightarrow> exn + 'b) \<Rightarrow> exn + 'b" where
  "bindE m f = (case m of Inl e \<Rightarrow> Inl e | Inr x \<Rightarrow> f x)"

definition catchE :: "exn + 'a \<Rightarrow> (exn \<Rightarrow> exn + 'a) \<Rightarrow> exn + 'a" where
  "catchE m h = (case m of Inl e \<Rightarrow> h e | Inr x \<Rightarrow> Inr x)"

fun mapE :: "('a \<Rightarrow> exn + 'b) \<Rightarrow> 'a list \<Rightarrow> exn + 'b list" where
  "mapE f [] = Inr []"
| "mapE f (x # xs) = bindE (f x) (\<lambda>y. bindE (mapE f xs) (\<lambda>ys. Inr (y # ys)))"

text \<open>
  Awaited calls to the outside world (the language model, the target API, the clock, the
  random source) read and change a world \<open>'w\<close> and may throw.
\<close>

type_synonym ('w, 'a) io = "'w \<Rightarrow> (exn + 'a) \<times> 'w"

definition ret :: "'a \<Rightarrow> ('w, 'a) io" where
  "ret x = (\<lambda>w. (Inr x, w))"

definition throw :: "exn \<Rightarrow> ('w, 'a) io" where
  "throw e = (\<lambda>w. (Inl e, w))"

definition bind :: "('w, 'a) io \<Rightarrow> ('a \<Rightarrow> ('w, 'b) io) \<Rightarrow> ('w, 'b) io" where
  "bind m f = (\<lambda>w. case m w of (Inl e, w') \<Rightarrow> (Inl e, w') | (Inr x, w') \<Rightarrow> f x w')"

definition catch :: "('w, 'a) io \<Rightarrow> (exn \<Rightarrow> ('w, 'a) io) \<Rightarrow> ('w, 'a) io" where
  "catch m h = (\<lambda>w. case m w of (Inl e, w') \<Rightarrow> h e w' | (Inr x, w') \<Rightarrow> (Inr x, w'))"

definition lift :: "('w \<Rightarrow> 'a \<times> 'w) \<Rightarrow> ('w, 'a) io" where
  "lift g = (\<lambda>w. case g w of (x, w') \<Rightarrow> (Inr x, w'))"

definition liftE :: "exn + 'a \<Rightarrow> ('w, 'a) io" where
  "liftE r = (\<lambda>w. (r, w))"

fun mapM :: "('a \<Rightarrow> ('w, 'b) io) \<Rightarrow> 'a list \<Rightarrow> ('w, 'b list) io" where
  "mapM f [] = ret []"
| "mapM f (x # xs) = bind (f x) (\<lambda>y. bind (mapM f xs) (\<lambda>ys. ret (y # ys)))"

section \<open>String helpers\<close>

text \<open>\<open>String.prototype.indexOf\<close> for one character (\<open>-1\<close> when absent) and \<open>slice\<close> from a
  non-negative start.\<close>

fun indexOf :: "string \<Rightarrow> char \<Rightarrow> int" where
  "indexOf [] c = -1"
| "indexOf (x # xs) c =
     (if x = c then 0 else (let i = indexOf xs c in if i = -1 then -1 else i + 1))"

definition slice :: "string \<Rightarrow> int \<Rightarrow> string" where
  "slice text start = drop (nat start) text"

text \<open>\<open>String.prototype.trim\<close>: white space and line terminators among the code units below 256.\<close>

definition isWhiteSpace :: "char \<Rightarrow> bool" where
  "isWhiteSpace c =
     (c \<in> set [CHR 0x09, CHR 0x0A, CHR 0x0B, CHR 0x0C, CHR 0x0D, CHR 0x20, CHR 0xA0])"

definition trim :: "string \<Rightarrow> string" where
  "trim s = rev (dropWhile isWhiteSpace (rev (dropWhile isWhiteSpace s)))"

fun join :: "string \<Rightarrow> string list \<Rightarrow> string" where
  "join sep [] = []"
| "join sep [x] = x"
| "join sep (x # y # ys) = x @ sep @ join sep (y # ys)"

section \<open>generate-tests: \<open>extractJSON\<close> and the evaluation filter\<close>

text \<open>
  \<open>jsonrepair\<close> (a package) and \<open>JSON.parse\<close> (a built-in) are parameters: each maps a
  string to a result or throws.
\<close>

record json_lib =
  jsonrepair :: "string \<Rightarrow> exn + string"
  JSON_parse :: "string \<Rightarrow> exn + json"

definition empty_envelope :: json where
  "empty_envelope = JObj [(''evaluations'', JArr [])]"

text \<open>Lines 27-36 of \<open>route.ts\<close>: repair, parse, wrap an array.\<close>

definition repair_and_parse :: "json_lib \<Rightarrow> string \<Rightarrow> exn + json" where
  "repair_and_parse lib text =
     bindE (jsonrepair lib text) (\<lambda>repaired.
     bindE (JSON_parse lib repaired) (\<lambda>parsed.
       if isArray parsed then Inr (JObj [(''evaluations'', parsed)])
       else Inr parsed))"

text \<open>The body of the \<open>try\<close> block of \<open>extractJSON\<close>.\<close>

definition extractJSON_try :: "json_lib \<Rightarrow> string \<Rightarrow> exn + json" where
  "extractJSON_try lib text =
     (let jsonStart = indexOf text (CHR ''['') in
      if jsonStart = -1 then
        (let objStart = indexOf text (CHR ''{'') in
         if objStart = -1 then Inr empty_envelope
         else repair_and_parse lib (slice text objStart))
      else repair_and_parse lib (slice text jsonStart))"

definition extractJSON :: "json_lib \<Rightarrow> string \<Rightarrow> exn + json" where
  "extractJSON lib text = catchE (extractJSON_try lib text) (\<lambda>e. Inr empty_envelope)"

record Evaluation =
  scenario :: string
  expectedOutput :: string

definition isValidEvaluation :: "json \<Rightarrow> bool" where
  "isValidEvaluation evaluation =
     (truthy evaluation \<and>
      typeof (Some evaluation) = ''object'' \<and>
      (case get_prop evaluation ''scenario'' of
         Some (JStr s) \<Rightarrow> 0 < length (trim s) | _ \<Rightarrow> False) \<and>
      (case get_prop evaluation ''expectedOutput'' of
         Some (JStr s) \<Rightarrow> 0 < length (trim s) | _ \<Rightarrow> False))"

text \<open>\<open>v.trim()\<close> on a property value: a \<open>TypeError\<close> unless the value is a string.\<close>

definition TypeError :: exn where
  "TypeError = ErrorObj ''TypeError'' ''trim is not a function''"

fun trim_prop :: "json option \<Rightarrow> exn + string" where
  "trim_prop (Some (JStr s)) = Inr (trim s)"
| "trim_prop v = Inl TypeError"

text \<open>The callback of \<open>.map\<close> at lines 154-157.\<close>

definition trimEvaluation :: "json \<Rightarrow> exn + Evaluation" where
  "trimEvaluation evaluation =
     bindE (trim_prop (get_prop evaluation ''scenario'')) (\<lambda>s.
     bindE (trim_prop (get_prop evaluation ''expectedOutput'')) (\<lambda>e.
       Inr \<lparr>scenario = s, expectedOutput = e\<rparr>))"

text \<open>Lines 147-150: anything without an array under \<open>evaluations\<close> becomes the empty envelope.\<close>

definition normalize_envelope :: "json \<Rightarrow> json" where
  "normalize_envelope evaluations =
     (if (case get_prop evaluations ''evaluations'' of None \<Rightarrow> True | Some v \<Rightarrow> \<not> truthy v)
         \<or> (case get_prop evaluations ''evaluations'' of None \<Rightarrow> True | Some v \<Rightarrow> \<not> isArray v)
      then empty_envelope else evaluations)"

fun array_items :: "json option \<Rightarrow> exn + json list" where
  "array_items (Some (JArr xs)) = Inr xs"
| "array_items v = Inl (ErrorObj ''TypeError'' ''filter is not a function'')"

text \<open>Lines 152-157.\<close>

definition validEvaluations :: "json list \<Rightarrow> exn + Evaluation list" where
  "validEvaluations candidates = mapE trimEvaluation (filter isValidEvaluation candidates)"

record Stats =
  total :: int
  valid :: int
  filtered :: int

text \<open>The numbers of lines 171-175.\<close>

definition stats_of :: "json list \<Rightarrow> Evaluation list \<Rightarrow> Stats" where
  "stats_of candidates validEvals =
     \<lparr>total = int (length candidates),
      valid = int (length validEvals),
      filtered = int (length candidates) - int (length validEvals)\<rparr>"

definition stats_json :: "Stats \<Rightarrow> json" where
  "stats_json st =
     JObj [(''total'', JNum (total st)), (''valid'', JNum (valid st)),
           (''filtered'', JNum (filtered st))]"

section \<open>generate-tests: the \<open>POST\<close> handler\<close>

text \<open>
  What the handler takes from outside: the request body, the request validator
  (\<open>@/lib/validations\<close>), the environment variable, the model factory and the chain
  (\<open>@/services/llm\<close>, langchain) and \<open>crypto.randomUUID\<close>.
\<close>

record ('w, 'm) gen_env =
  gen_req_json :: "('w, json) io"
  validateGenerateTestsRequest :: "json \<Rightarrow> exn + (json \<times> string option)"
  NEXT_PUBLIC_ANTHROPIC_API_KEY :: "string option"
  Sonnet3_5 :: string
  gen_createLangchainModel :: "string \<Rightarrow> string \<Rightarrow> exn + 'm"
  gen_chain_invoke :: "'m \<Rightarrow> string \<Rightarrow> json \<Rightarrow> ('w, string) io"
  randomUUID :: "'w \<Rightarrow> string \<times> 'w"

record response =
  body :: json
  status :: nat

definition NextResponse_json :: "json \<Rightarrow> response" where
  "NextResponse_json data = \<lparr>body = data, status = 200\<rparr>"

definition NextResponse_json_status :: "json \<Rightarrow> nat \<Rightarrow> response" where
  "NextResponse_json_status data st = \<lparr>body = data, status = st\<rparr>"

text \<open>Lines 122-143: read and validate the request, build the chain, ask the model.\<close>

definition gen_ask_model :: "('w, 'm) gen_env \<Rightarrow> ('w, string) io" where
  "gen_ask_model env =
     bind (gen_req_json env) (\<lambda>reqBody.
     bind (liftE (validateGenerateTestsRequest env reqBody)) (\<lambda>(inputExample, agentDescription).
       case NEXT_PUBLIC_ANTHROPIC_API_KEY env of
         None \<Rightarrow> throw (new_Error ''API key not configured'')
       | Some apiKey \<Rightarrow>
           if apiKey = [] then throw (new_Error ''API key not configured'')
           else
             bind (liftE (gen_createLangchainModel env (Sonnet3_5 env) apiKey)) (\<lambda>model.
               gen_chain_invoke env model
                 (case agentDescription of
                    None \<Rightarrow> ''Context derived from example input below:''
                  | Some d \<Rightarrow>
                      if d = [] then ''Context derived from example input below:''
                      else ''Context: '' @ d)
                 inputExample)))"

text \<open>Lines 166-170: one test case, with a fresh id.\<close>

definition testCase :: "('w, 'm) gen_env \<Rightarrow> Evaluation \<Rightarrow> ('w, json) io" where
  "testCase env evaluation =
     bind (lift (randomUUID env)) (\<lambda>uuid.
       ret (JObj [(''id'', JStr uuid),
                  (''scenario'', JStr (scenario evaluation)),
                  (''expectedOutput'', JStr (expectedOutput evaluation))]))"

text \<open>Lines 145-176: from the model's text to the success response.\<close>

definition gen_respond :: "json_lib \<Rightarrow> ('w, 'm) gen_env \<Rightarrow> string \<Rightarrow> ('w, response) io" where
  "gen_respond lib env modelText =
     bind (liftE (extractJSON lib modelText)) (\<lambda>extracted.
     (let evaluations = normalize_envelope extracted in
      bind (liftE (array_items (get_prop evaluations ''evaluations''))) (\<lambda>candidates.
      bind (liftE (validEvaluations candidates)) (\<lambda>validEvals.
        if length validEvals = 0 then throw (new_Error ''No valid evaluations generated'')
        else
          bind (mapM (testCase env) validEvals) (\<lambda>testCases.
            ret (NextResponse_json
              (JObj [(''testCases'', JArr testCases),
                     (''stats'', stats_json (stats_of candidates validEvals))])))))))"

text \<open>The \<open>catch\<close> block, lines 177-186.\<close>

definition gen_error_response :: "exn \<Rightarrow> response" where
  "gen_error_response error =
     NextResponse_json_status
       (JObj [(''error'', JStr ''Failed to generate evaluations''),
              (''details'', JStr (if instanceofError error then error_message error
                                  else ''Unknown error''))])
       500"

definition gen_POST :: "json_lib \<Rightarrow> ('w, 'm) gen_env \<Rightarrow> ('w, response) io" where
  "gen_POST lib env =
     catch (bind (gen_ask_model env) (gen_respond lib env))
           (\<lambda>error. ret (gen_error_response error))"

section \<open>analyze-results: the \<open>POST\<close> handler\<close>

record LLMConfig =
  model :: string
  apiKey :: string

text \<open>
  What the handler takes from outside: the request (body and headers), the request validator
  (\<open>@/lib/validations\<close>), \<open>getLLMConfigForActiveModel\<close> (\<open>@/utils\<close>; \<open>None\<close> is a falsy
  result), the model factory, \<open>JSON.stringify\<close> and the chain.
\<close>

record ('w, 'm) an_env =
  an_req_json :: "('w, json) io"
  an_req_headers :: "(string \<times> string) list"
  validateAnalyzeResultsRequest :: "json \<Rightarrow> exn + json"
  getLLMConfigForActiveModel :: "(string \<times> string) list \<Rightarrow> exn + LLMConfig option"
  an_createLangchainModel :: "string \<Rightarrow> string \<Rightarrow> exn + 'm"
  JSON_stringify :: "json \<Rightarrow> string"
  an_chain_invoke :: "'m \<Rightarrow> string \<Rightarrow> ('w, json) io"

definition missing_config_response :: response where
  "missing_config_response =
     NextResponse_json_status (JObj [(''error'', JStr ''Missing or invalid LLM configuration'')]) 400"

definition an_error_response :: response where
  "an_error_response =
     NextResponse_json_status (JObj [(''error'', JStr ''Failed to analyze results'')]) 500"

text \<open>Lines 38-64 of the analyze-results route, the body of its \<open>try\<close> block.\<close>

definition an_POST_try :: "('w, 'm) an_env \<Rightarrow> ('w, response) io" where
  "an_POST_try env =
     bind (an_req_json env) (\<lambda>reqBody.
     bind (liftE (validateAnalyzeResultsRequest env reqBody)) (\<lambda>results.
     bind (liftE (getLLMConfigForActiveModel env (an_req_headers env))) (\<lambda>config.
       case config of
         None \<Rightarrow> ret missing_config_response
       | Some cfg \<Rightarrow>
           bind (liftE (an_createLangchainModel env (model cfg) (apiKey cfg))) (\<lambda>m.
           bind (an_chain_invoke env m (JSON_stringify env results)) (\<lambda>analysis.
             ret (NextResponse_json analysis))))))"

definition an_POST :: "('w, 'm) an_env \<Rightarrow> ('w, response) io" where
  "an_POST env = catch (an_POST_try env) (\<lambda>error. ret an_error_response)"

section \<open>The QA agent\<close>

record QaApiConfig =
  inputFormat :: json
  outputFormat :: json
  rules :: json

record QaAgentConfig =
  modelId :: "string option"
  endpointUrl :: string
  headers :: "(string \<times> string) list"
  apiConfig :: QaApiConfig

datatype role = User | Assistant

record Metrics =
  responseTime :: int
  validationScore :: int

record TestMessage =
  msg_id :: string
  chatId :: string
  role :: role
  content :: string
  metrics :: Metrics

record ConversationRecord =
  humanMessage :: string
  rawInput :: json
  rawOutput :: json
  chatResponse :: string
  allMessages :: "TestMessage list"

record ValidationRecord =
  passedTest :: bool
  formatValid :: bool
  conditionMet :: bool
  explanation :: string
  validation_responseTime :: int

record TestResult =
  conversation :: ConversationRecord
  validation :: ValidationRecord

text \<open>
  The agent's \<open>BufferMemory\<close> (langchain, \<open>returnMessages: true\<close>) is its list of messages:
  \<open>saveContext\<close> appends the input as a human message and the output as an AI message,
  \<open>loadMemoryVariables\<close> gives the list back under \<open>chat_history\<close>, \<open>clear\<close> empties it.
\<close>

datatype BaseMessage = HumanMessage string | AIMessage string

record QaAgent =
  config :: QaAgentConfig
  memory :: "BaseMessage list"

text \<open>
  The constructor (lines 22-70): it throws when the API key is not set, and starts with an
  empty memory. The model and the prompt it builds are the chain of \<open>runTest\<close> below.
\<close>

definition new_QaAgent :: "string option \<Rightarrow> QaAgentConfig \<Rightarrow> exn + QaAgent" where
  "new_QaAgent envApiKey cfg =
     (case envApiKey of
        None \<Rightarrow> Inl (new_Error ''NEXT_PUBLIC_ANTHROPIC_API_KEY is not set'')
      | Some k \<Rightarrow>
          if k = [] then Inl (new_Error ''NEXT_PUBLIC_ANTHROPIC_API_KEY is not set'')
          else Inr \<lparr>config = cfg, memory = []\<rparr>)"

definition saveContext :: "BaseMessage list \<Rightarrow> string \<Rightarrow> string \<Rightarrow> BaseMessage list" where
  "saveContext mem inp out = mem @ [HumanMessage inp, AIMessage out]"

definition getHistory :: "QaAgent \<Rightarrow> BaseMessage list" where
  "getHistory agent = memory agent"

definition reset :: "QaAgent \<Rightarrow> QaAgent" where
  "reset agent = agent\<lparr>memory := []\<rparr>"

text \<open>
  What \<open>runTest\<close> takes from outside: the chain (prompt, model, parser), \<open>ApiHandler\<close>,
  \<open>ConversationHandler\<close>, \<open>ResponseValidator\<close>, the clock and \<open>uuidv4\<close>.
\<close>

record 'w qa_env =
  chain_invoke :: "string \<Rightarrow> ('w, string) io"
  callEndpoint :: "string \<Rightarrow> (string \<times> string) list \<Rightarrow> json \<Rightarrow> ('w, json) io"
  Date_now :: "'w \<Rightarrow> int \<times> 'w"
  uuidv4 :: "'w \<Rightarrow> string \<times> 'w"
  extractTestMessage :: "string \<Rightarrow> string"
  extractConversationPlan :: "string \<Rightarrow> string list option"
  extractChatResponse :: "json \<Rightarrow> json \<Rightarrow> string"
  formatInput :: "string \<Rightarrow> json \<Rightarrow> json"
  validateResponseFormat :: "json \<Rightarrow> json \<Rightarrow> bool"
  validateCondition :: "json \<Rightarrow> json \<Rightarrow> bool"

text \<open>The local variables of \<open>runTest\<close> that the loop reads or reassigns.\<close>

record run_vars =
  v_testMessage :: string
  v_conversationPlan :: "string list option"
  v_formattedInput :: json
  v_chatId :: string
  v_apiResponse :: json
  v_chatResponse :: string
  v_totalResponseTime :: int
  v_allMessages :: "TestMessage list"

definition nl :: string where
  "nl = [CHR 0x0A]"

definition dq :: string where
  "dq = [CHR 0x22]"

definition plan_prompt :: "string \<Rightarrow> string \<Rightarrow> string" where
  "plan_prompt scen expected =
     ''Test this scenario: '' @ scen @ nl @ ''Expected behavior: '' @ expected @ nl @ nl @
     ''Plan and start a natural conversation to test this scenario.''"

definition followUp_prompt :: "string \<Rightarrow> string \<Rightarrow> string" where
  "followUp_prompt chatResp plannedTurn =
     ''Previous API response: '' @ dq @ chatResp @ dq @ nl @ nl @
     ''Given this response and your plan: '' @ dq @ plannedTurn @ dq @ nl @ nl @
     ''Continue the conversation naturally.''"

definition transcript_line :: "TestMessage \<Rightarrow> string" where
  "transcript_line m = (if role m = User then ''Human'' else ''Assistant'') @ '': '' @ content m"

definition analysis_prompt :: "string \<Rightarrow> string \<Rightarrow> TestMessage list \<Rightarrow> bool \<Rightarrow> bool \<Rightarrow> string" where
  "analysis_prompt scen expected msgs fmtValid condMet =
     ''Analyze if this conversation met our test expectations:'' @ nl @ nl @
     ''Original scenario: '' @ scen @ nl @
     ''Expected behavior: '' @ expected @ nl @ nl @
     ''Conversation:'' @ nl @
     join (nl @ nl) (map transcript_line msgs) @ nl @ nl @
     ''Consider that the response format was '' @ (if fmtValid then ''valid'' else ''invalid'') @ nl @
     ''and the condition was '' @ (if condMet then ''met'' else ''not met'') @ ''.'' @ nl @ nl @
     ''Did the interaction meet our expectations? Explain why or why not.''"

text \<open>One transcript entry, as pushed at lines 112-133 and 169-189.\<close>

definition new_message :: "'w qa_env \<Rightarrow> string \<Rightarrow> role \<Rightarrow> string \<Rightarrow> int \<Rightarrow> ('w, TestMessage) io" where
  "new_message env cid r txt rt =
     bind (lift (uuidv4 env)) (\<lambda>uuid.
       ret \<lparr>msg_id = uuid, chatId = cid, role = r, content = txt,
            metrics = \<lparr>responseTime = rt, validationScore = 1\<rparr>\<rparr>)"

text \<open>The \<open>catch\<close> block of lines 154-159.\<close>

definition timeout_handler :: "exn \<Rightarrow> exn" where
  "timeout_handler error =
     (if instanceofError error \<and> error_name error = ''AbortError''
      then new_Error ''API request timed out after 10 seconds''
      else error)"

text \<open>Lines 74-133: plan, first call to the target API, first two transcript entries.\<close>

definition runTest_initial :: "'w qa_env \<Rightarrow> QaAgent \<Rightarrow> string \<Rightarrow> string \<Rightarrow> ('w, run_vars) io" where
  "runTest_initial env agent scen expected =
     bind (chain_invoke env (plan_prompt scen expected)) (\<lambda>planResult.
     (let testMessage = extractTestMessage env planResult;
          conversationPlan = extractConversationPlan env planResult in
      bind (lift (Date_now env)) (\<lambda>startTime.
      (let formattedInput = formatInput env testMessage (inputFormat (apiConfig (config agent))) in
       bind (callEndpoint env (endpointUrl (config agent)) (headers (config agent)) formattedInput)
         (\<lambda>apiResp.
       (let chatResp = extractChatResponse env apiResp (rules (apiConfig (config agent))) in
        bind (lift (Date_now env)) (\<lambda>t.
        (let totalTime = 0 + (t - startTime) in
         bind (lift (uuidv4 env)) (\<lambda>cid.
         bind (new_message env cid User testMessage totalTime) (\<lambda>m1.
         bind (new_message env cid Assistant chatResp totalTime) (\<lambda>m2.
           ret \<lparr>v_testMessage = testMessage,
                v_conversationPlan = conversationPlan,
                v_formattedInput = formattedInput,
                v_chatId = cid,
                v_apiResponse = apiResp,
                v_chatResponse = chatResp,
                v_totalResponseTime = totalTime,
                v_allMessages = [] @ [m1] @ [m2]\<rparr>)))))))))))"

text \<open>Lines 138-189: the body of the loop, one follow-up turn.\<close>

definition followUpTurn :: "'w qa_env \<Rightarrow> QaAgent \<Rightarrow> run_vars \<Rightarrow> string \<Rightarrow> ('w, run_vars) io" where
  "followUpTurn env agent vars plannedTurn =
     bind (chain_invoke env (followUp_prompt (v_chatResponse vars) plannedTurn)) (\<lambda>followUpResult.
     (let followUpMessage = extractTestMessage env followUpResult in
      bind (lift (Date_now env)) (\<lambda>startTime.
      (let followUpInput = formatInput env followUpMessage (inputFormat (apiConfig (config agent))) in
       bind (catch
               (bind (callEndpoint env (endpointUrl (config agent)) (headers (config agent))
                        followUpInput)
                  (\<lambda>apiResp.
                    ret (apiResp,
                         extractChatResponse env apiResp (rules (apiConfig (config agent))))))
               (\<lambda>error. throw (timeout_handler error)))
         (\<lambda>(apiResp, chatResp).
       bind (lift (Date_now env)) (\<lambda>t1.
       (let turnResponseTime = t1 - startTime in
        bind (lift (Date_now env)) (\<lambda>t2.
        bind (new_message env (v_chatId vars) User followUpMessage turnResponseTime) (\<lambda>m1.
        bind (new_message env (v_chatId vars) Assistant chatResp turnResponseTime) (\<lambda>m2.
          ret (vars\<lparr>v_apiResponse := apiResp,
                    v_chatResponse := chatResp,
                    v_totalResponseTime := v_totalResponseTime vars + (t2 - startTime),
                    v_allMessages := v_allMessages vars @ [m1] @ [m2]\<rparr>)))))))))))"

text \<open>The \<open>for ... of\<close> loop of line 137.\<close>

fun forEachTurn :: "'w qa_env \<Rightarrow> QaAgent \<Rightarrow> run_vars \<Rightarrow> string list \<Rightarrow> ('w, run_vars) io" where
  "forEachTurn env agent vars [] = ret vars"
| "forEachTurn env agent vars (plannedTurn # rest) =
     bind (followUpTurn env agent vars plannedTurn) (\<lambda>vars'. forEachTurn env agent vars' rest)"

text \<open>Lines 136-191: the loop under its guard.\<close>

definition followUps :: "'w qa_env \<Rightarrow> QaAgent \<Rightarrow> run_vars \<Rightarrow> ('w, run_vars) io" where
  "followUps env agent vars =
     (case v_conversationPlan vars of
        None \<Rightarrow> ret vars
      | Some plan \<Rightarrow> if length plan > 0 then forEachTurn env agent vars plan else ret vars)"

text \<open>Lines 193-236: validate the last response, ask for the analysis, save to memory, return.\<close>

definition runTest_finish ::
  "'w qa_env \<Rightarrow> QaAgent \<Rightarrow> string \<Rightarrow> string \<Rightarrow> run_vars \<Rightarrow> ('w, TestResult \<times> QaAgent) io" where
  "runTest_finish env agent scen expected vars =
     (let fmtValid = validateResponseFormat env (v_apiResponse vars)
                       (outputFormat (apiConfig (config agent)));
          condMet = validateCondition env (v_apiResponse vars) (rules (apiConfig (config agent))) in
      bind (chain_invoke env (analysis_prompt scen expected (v_allMessages vars) fmtValid condMet))
        (\<lambda>analysisResult.
          ret (\<lparr>conversation =
                   \<lparr>humanMessage = v_testMessage vars,
                    rawInput = v_formattedInput vars,
                    rawOutput = v_apiResponse vars,
                    chatResponse = v_chatResponse vars,
                    allMessages = v_allMessages vars\<rparr>,
                 validation =
                   \<lparr>passedTest = (fmtValid \<and> condMet),
                    formatValid = fmtValid,
                    conditionMet = condMet,
                    explanation = analysisResult,
                    validation_responseTime = v_totalResponseTime vars\<rparr>\<rparr>,
               agent\<lparr>memory := saveContext (memory agent) (v_testMessage vars)
                                   (v_chatResponse vars)\<rparr>)))"

text \<open>\<open>runTest\<close>: the \<open>try\<close> block and the \<open>catch\<close> that logs and throws the error again.\<close>

definition runTest ::
  "'w qa_env \<Rightarrow> QaAgent \<Rightarrow> string \<Rightarrow> string \<Rightarrow> ('w, TestResult \<times> QaAgent) io" where
  "runTest env agent scen expected =
     catch
       (bind (runTest_initial env agent scen expected) (\<lambda>vars0.
        bind (followUps env agent vars0) (\<lambda>vars.
          runTest_finish env agent scen expected vars)))
       (\<lambda>error. throw error)"

section \<open>The envelope shape, and concrete collaborators for the examples\<close>

text \<open>The shape the specification gives to the result of \<open>extractJSON\<close>: an object with an
  array under \<open>evaluations\<close>.\<close>

definition spec_envelope :: "json \<Rightarrow> bool" where
  "spec_envelope v = (case get_prop v ''evaluations'' of Some (JArr xs) \<Rightarrow> True | _ \<Rightarrow> False)"

text \<open>Two model outputs: \<open>{"a":1}\<close>, and the scenario of the specification,
  \<open>prefix text [{"scenario":"a","expectedOutput":"b"},{}]\<close>.\<close>

definition object_text :: string where
  "object_text = ''{'' @ dq @ ''a'' @ dq @ '':1}''"

definition array_text :: string where
  "array_text =
     ''[{'' @ dq @ ''scenario'' @ dq @ '':'' @ dq @ ''a'' @ dq @ '','' @
     dq @ ''expectedOutput'' @ dq @ '':'' @ dq @ ''b'' @ dq @ ''},{}]''"

definition prefixed_array_text :: string where
  "prefixed_array_text = ''prefix text '' @ array_text"

definition sample_candidates :: "json list" where
  "sample_candidates =
     [JObj [(''scenario'', JStr ''a''), (''expectedOutput'', JStr ''b'')], JObj []]"

text \<open>\<open>jsonrepair\<close> leaves valid JSON as it is; \<open>JSON.parse\<close> on the two texts above, a
  \<open>SyntaxError\<close> elsewhere.\<close>

definition sample_lib :: json_lib where
  "sample_lib =
     \<lparr>jsonrepair = (\<lambda>s. Inr s),
      JSON_parse = (\<lambda>s.
        if s = object_text then Inr (JObj [(''a'', JNum 1)])
        else if s = array_text then Inr (JArr sample_candidates)
        else Inl (ErrorObj ''SyntaxError'' ''Unexpected token''))\<rparr>"

text \<open>A library whose repair step throws on every input.\<close>

definition failing_repair_lib :: json_lib where
  "failing_repair_lib =
     \<lparr>jsonrepair = (\<lambda>s. Inl (ErrorObj ''JSONRepairError'' ''Unexpected character'')),
      JSON_parse = (\<lambda>s. Inr JNull)\<rparr>"

text \<open>A generate-tests request that succeeds up to the model call; the model answers with the
  given text. The world counts the ids drawn.\<close>

definition sample_gen_env :: "string \<Rightarrow> (nat, unit) gen_env" where
  "sample_gen_env modelText =
     \<lparr>gen_req_json = ret (JObj [(''inputExample'', JStr ''hi'')]),
      validateGenerateTestsRequest = (\<lambda>b. Inr (JStr ''hi'', None)),
      NEXT_PUBLIC_ANTHROPIC_API_KEY = Some ''key'',
      Sonnet3_5 = ''claude-3-5-sonnet'',
      gen_createLangchainModel = (\<lambda>m k. Inr ()),
      gen_chain_invoke = (\<lambda>m c i. ret modelText),
      randomUUID = (\<lambda>w. (''uuid'', Suc w))\<rparr>"

text \<open>An analyze-results request with no configuration in its headers; reading the body gives
  the given result. The world counts the model invocations.\<close>

definition sample_an_env :: "exn + json \<Rightarrow> (nat, unit) an_env" where
  "sample_an_env bodyResult =
     \<lparr>an_req_json = liftE bodyResult,
      an_req_headers = [],
      validateAnalyzeResultsRequest = (\<lambda>b. Inr b),
      getLLMConfigForActiveModel = (\<lambda>hs.
        Inr (case map_of hs ''x-api-key'' of
               None \<Rightarrow> None
             | Some k \<Rightarrow> Some \<lparr>model = ''claude-3-5-sonnet'', apiKey = k\<rparr>)),
      an_createLangchainModel = (\<lambda>m k. Inr ()),
      JSON_stringify = (\<lambda>v. ''[]''),
      an_chain_invoke = (\<lambda>m s w. (Inr (JObj []), Suc w))\<rparr>"

definition malformed_body :: "exn + json" where
  "malformed_body = Inl (ErrorObj ''SyntaxError'' ''Unexpected end of JSON input'')"

text \<open>
  A target API and a model for \<open>runTest\<close>. The world counts the calls made to the target API.
  The model plans one follow-up turn; the target answers \<open>first reply\<close>, then
  \<open>second reply\<close> or, when a failure is given, throws it on the second call.
\<close>

definition sample_qa_env :: "exn option \<Rightarrow> nat qa_env" where
  "sample_qa_env failure =
     \<lparr>chain_invoke = (\<lambda>inp w.
        (Inr (if w = 0 then ''hello'' else if w = 1 then ''and then?'' else ''looks fine''), w)),
      callEndpoint = (\<lambda>url hs b w.
        (if w = 0 then Inr (JStr ''first reply'')
         else (case failure of None \<Rightarrow> Inr (JStr ''second reply'') | Some e \<Rightarrow> Inl e),
         Suc w)),
      Date_now = (\<lambda>w. (int w * 5, w)),
      uuidv4 = (\<lambda>w. (''uuid'', w)),
      extractTestMessage = (\<lambda>s. s),
      extractConversationPlan = (\<lambda>s. Some [''ask again'']),
      extractChatResponse = (\<lambda>r rs. case r of JStr s \<Rightarrow> s | _ \<Rightarrow> []),
      formatInput = (\<lambda>m fmt. JObj [(''message'', JStr m)]),
      validateResponseFormat = (\<lambda>r fmt. True),
      validateCondition = (\<lambda>r rs. True)\<rparr>"

definition sample_agent :: QaAgent where
  "sample_agent =
     \<lparr>config =
        \<lparr>modelId = None, endpointUrl = ''http://target.example/chat'', headers = [],
         apiConfig = \<lparr>inputFormat = JNull, outputFormat = JNull, rules = JNull\<rparr>\<rparr>,
      memory = []\<rparr>"

definition abort_error :: exn where
  "abort_error = ErrorObj ''AbortError'' ''The operation was aborted''"

text \<open>The variables of the sample run after its first turn.\<close>

definition sample_vars0 :: run_vars where
  "sample_vars0 =
     \<lparr>v_testMessage = ''hello'',
      v_conversationPlan = Some [''ask again''],
      v_formattedInput = JObj [(''message'', JStr ''hello'')],
      v_chatId = ''uuid'',
      v_apiResponse = JStr ''first reply'',
      v_chatResponse = ''first reply'',
      v_totalResponseTime = 5,
      v_allMessages =
        [\<lparr>msg_id = ''uuid'', chatId = ''uuid'', role = User, content = ''hello'',
          metrics = \<lparr>responseTime = 5, validationScore = 1\<rparr>\<rparr>,
         \<lparr>msg_id = ''uuid'', chatId = ''uuid'', role = Assistant, content = ''first reply'',
          metrics = \<lparr>responseTime = 5, validationScore = 1\<rparr>\<rparr>]\<rparr>"

section \<open>Basic facts\<close>

subsection \<open>Strings\<close>

lemma indexOf_ge: "indexOf xs c = -1 \<or> 0 \<le> indexOf xs c"
  by (induction xs) (auto simp: Let_def)

lemma indexOf_absent: "indexOf xs c = -1 \<longleftrightarrow> c \<notin> set xs"
proof (induction xs)
  case Nil show ?case by simp
next
  case (Cons x xs)
  have "indexOf xs c = -1 \<or> 0 \<le> indexOf xs c" by (rule indexOf_ge)
  with Cons show ?case by (auto simp: Let_def)
qed

lemma trim_prefix: "\<exists>v. dropWhile P s = rev (dropWhile P (rev (dropWhile P s))) @ v"
proof -
  let ?t = "dropWhile P s"
  have "rev ?t = takeWhile P (rev ?t) @ dropWhile P (rev ?t)" by simp
  then have "rev (rev ?t) = rev (takeWhile P (rev ?t) @ dropWhile P (rev ?t))" by simp
  then have "?t = rev (dropWhile P (rev ?t)) @ rev (takeWhile P (rev ?t))" by (simp del: takeWhile_dropWhile_id)
  then show ?thesis by blast
qed

lemma trim_hd: assumes "trim s \<noteq> []" shows "\<not> isWhiteSpace (hd (trim s))"
proof -
  obtain v where v: "dropWhile isWhiteSpace s = trim s @ v"
    using trim_prefix [of isWhiteSpace s] by (auto simp: trim_def)
  with assms have ne: "dropWhile isWhiteSpace s \<noteq> []" by auto
  from v assms have "hd (trim s) = hd (dropWhile isWhiteSpace s)" by (metis hd_append2)
  with ne show ?thesis by (simp add: hd_dropWhile)
qed

lemma trim_idem: "trim (trim s) = trim s"
proof (cases "trim s = []")
  case True
  have "trim [] = []" by (simp add: trim_def)
  with True show ?thesis by simp
next
  case False
  then have "dropWhile isWhiteSpace (trim s) = trim s"
    using trim_hd [OF False] by (simp add: dropWhile_eq_self_iff)
  then have "trim (trim s) = rev (dropWhile isWhiteSpace (rev (trim s)))" by (simp add: trim_def)
  also have "\<dots> = trim s" by (simp add: trim_def)
  finally show ?thesis .
qed

lemma extractJSON_total: "\<exists>v. extractJSON lib text = Inr v"
  by (cases "extractJSON_try lib text") (simp_all add: extractJSON_def catchE_def)

lemma trimEvaluation_valid:
  "isValidEvaluation c \<Longrightarrow> \<exists>s e. get_prop c ''scenario'' = Some (JStr s) \<and> get_prop c ''expectedOutput'' = Some (JStr e)
     \<and> trim s \<noteq> [] \<and> trim e \<noteq> [] \<and> trimEvaluation c = Inr \<lparr>scenario = trim s, expectedOutput = trim e\<rparr>"
  by (auto simp: isValidEvaluation_def trimEvaluation_def bindE_def split: option.splits json.splits)

subsection \<open>The effect combinators\<close>

lemma bind_Inr:
  "bind m f w = (Inr y, w') \<longleftrightarrow> (\<exists>x w1. m w = (Inr x, w1) \<and> f x w1 = (Inr y, w'))"
  by (cases "m w") (auto simp: bind_def split: sum.splits)

lemma bind_step: "m w = (Inr x, w1) \<Longrightarrow> bind m f w = f x w1"
  by (simp add: bind_def)

lemma ret_apply: "ret x w = (Inr x, w)"
  by (simp add: ret_def)

lemma throw_apply: "throw e w = (Inl e, w)"
  by (simp add: throw_def)

lemma liftE_apply: "liftE r w = (r, w)"
  by (simp add: liftE_def)

lemma lift_Inr: "lift g w = (Inr x, w') \<longleftrightarrow> g w = (x, w')"
  by (cases "g w") (simp add: lift_def)

lemma catch_rethrow: "catch m (\<lambda>error. throw error) = m"
proof
  fix w show "catch m (\<lambda>error. throw error) w = m w"
    by (cases "m w") (auto simp: catch_def throw_def split: sum.splits)
qed

lemma mapM_length: "mapM f xs w = (Inr ys, w') \<Longrightarrow> length ys = length xs"
proof (induction xs arbitrary: ys w w')
  case Nil
  then show ?case by (simp add: ret_def)
next
  case (Cons x xs)
  from Cons.prems obtain y w1 zs w2 where
    "f x w = (Inr y, w1)" and tl: "mapM f xs w1 = (Inr zs, w2)" and "ys = y # zs"
    by (auto simp: bind_Inr ret_def)
  with Cons.IH [OF tl] show ?case by simp
qed

subsection \<open>\<open>extractJSON\<close>\<close>

lemma extractJSON_catch:
  "extractJSON lib text =
     (case extractJSON_try lib text of Inl e \<Rightarrow> Inr empty_envelope | Inr v \<Rightarrow> Inr v)"
  by (simp add: extractJSON_def catchE_def)

lemma spec_envelope_normalize: "spec_envelope (normalize_envelope v)"
proof (cases "get_prop v ''evaluations''")
  case None
  then show ?thesis
    by (simp add: normalize_envelope_def spec_envelope_def empty_envelope_def)
next
  case (Some u)
  then show ?thesis
    by (cases u) (simp_all add: normalize_envelope_def spec_envelope_def empty_envelope_def)
qed

lemma candidates_total:
  "\<exists>xs. array_items (get_prop (normalize_envelope ev) ''evaluations'') = Inr xs"
proof -
  have "spec_envelope (normalize_envelope ev)" by (rule spec_envelope_normalize)
  then obtain xs where "get_prop (normalize_envelope ev) ''evaluations'' = Some (JArr xs)"
    by (auto simp: spec_envelope_def split: option.splits json.splits)
  then show ?thesis by simp
qed

subsection \<open>The evaluation filter\<close>

lemma mapE_trimEvaluation:
  assumes "\<forall>c\<in>set cs. isValidEvaluation c"
  shows "\<exists>vs. mapE trimEvaluation cs = Inr vs \<and>
           list_all2 (\<lambda>c v. isValidEvaluation c \<and> (\<exists>s e. get_prop c ''scenario'' = Some (JStr s) \<and>
                         get_prop c ''expectedOutput'' = Some (JStr e) \<and>
                         trim s \<noteq> [] \<and> trim e \<noteq> [] \<and>
                         v = \<lparr>scenario = trim s, expectedOutput = trim e\<rparr>)) cs vs"
  using assms
proof (induction cs)
  case Nil
  show ?case by simp
next
  case (Cons c cs)
  then have valid_c: "isValidEvaluation c" by simp
  from trimEvaluation_valid [OF this] obtain s e where
    c: "get_prop c ''scenario'' = Some (JStr s)" "get_prop c ''expectedOutput'' = Some (JStr e)"
       "trim s \<noteq> []" "trim e \<noteq> []"
       "trimEvaluation c = Inr \<lparr>scenario = trim s, expectedOutput = trim e\<rparr>"
    by blast
  from Cons obtain vs where vs: "mapE trimEvaluation cs = Inr vs"
    and rel: "list_all2 (\<lambda>c v. isValidEvaluation c \<and> (\<exists>s e. get_prop c ''scenario'' = Some (JStr s) \<and>
                         get_prop c ''expectedOutput'' = Some (JStr e) \<and>
                         trim s \<noteq> [] \<and> trim e \<noteq> [] \<and>
                         v = \<lparr>scenario = trim s, expectedOutput = trim e\<rparr>)) cs vs"
    by auto
  from valid_c c vs rel show ?case by (simp add: bindE_def)
qed

lemma validEvaluations_total:
  "\<exists>vs. validEvaluations cands = Inr vs \<and>
     list_all2 (\<lambda>c v. isValidEvaluation c \<and> (\<exists>s e. get_prop c ''scenario'' = Some (JStr s) \<and>
                         get_prop c ''expectedOutput'' = Some (JStr e) \<and>
                         trim s \<noteq> [] \<and> trim e \<noteq> [] \<and>
                         v = \<lparr>scenario = trim s, expectedOutput = trim e\<rparr>))
       (filter isValidEvaluation cands) vs"
  unfolding validEvaluations_def by (rule mapE_trimEvaluation) simp

section \<open>Claims about \<open>extractJSON\<close>\<close>

text \<open>
  C2 (as stated, refuted). The claim says that \<open>extractJSON\<close> returns an object with an
  \<open>evaluations\<close> array for every input, also when the parsed value is a non-array object.
  On the model output \<open>{"a":1}\<close> the function returns the parsed object as it is, and that
  object has no \<open>evaluations\<close> field.
\<close>

theorem extractJSON_object_counterexample:
  "extractJSON sample_lib object_text = Inr (JObj [(''a'', JNum 1)]) \<and>
   \<not> spec_envelope (JObj [(''a'', JNum 1)])"
  by (simp add: extractJSON_def catchE_def extractJSON_try_def repair_and_parse_def bindE_def
      sample_lib_def object_text_def dq_def slice_def spec_envelope_def)

text \<open>
  C2 (amended). For every string input \<open>extractJSON\<close> returns a value without throwing,
  and the value is fixed by the text: the empty envelope when the text has neither \<open>[\<close>
  nor \<open>{\<close>, when repairing the text sliced from the first \<open>[\<close> (or, without one, the
  first \<open>{\<close>) throws, or when parsing the repaired text throws; the envelope holding the
  parsed array when the parsed value is an array; the parsed value itself, unchanged, when
  it is not an array, so the result need not have an \<open>evaluations\<close> field. The handler's
  normalisation step (lines 147-150) keeps a value with an array under \<open>evaluations\<close> as it
  is and replaces every other value by the empty envelope.
\<close>

theorem extractJSON_result_shape:
  "(\<exists>v. extractJSON lib text = Inr v) \<and>
   (indexOf text (CHR ''['') = -1 \<and> indexOf text (CHR ''{'') = -1 \<longrightarrow>
      extractJSON lib text = Inr empty_envelope) \<and>
   (\<forall>start. (start = indexOf text (CHR ''['') \<and> start \<noteq> -1 \<or>
              indexOf text (CHR ''['') = -1 \<and> start = indexOf text (CHR ''{'') \<and> start \<noteq> -1) \<longrightarrow>
      (\<forall>e. jsonrepair lib (slice text start) = Inl e \<longrightarrow>
         extractJSON lib text = Inr empty_envelope) \<and>
      (\<forall>repaired. jsonrepair lib (slice text start) = Inr repaired \<longrightarrow>
         (\<forall>e. JSON_parse lib repaired = Inl e \<longrightarrow>
            extractJSON lib text = Inr empty_envelope) \<and>
         (\<forall>xs. JSON_parse lib repaired = Inr (JArr xs) \<longrightarrow>
            extractJSON lib text = Inr (JObj [(''evaluations'', JArr xs)])) \<and>
         (\<forall>parsed. JSON_parse lib repaired = Inr parsed \<longrightarrow> \<not> isArray parsed \<longrightarrow>
            extractJSON lib text = Inr parsed))) \<and>
   (\<forall>xs. spec_envelope (JObj [(''evaluations'', JArr xs)])) \<and>
   (\<forall>u. normalize_envelope u = (if spec_envelope u then u else empty_envelope))"
proof (intro conjI allI impI)
  show "\<exists>v. extractJSON lib text = Inr v" by (rule extractJSON_total)
next
  assume "indexOf text (CHR ''['') = -1 \<and> indexOf text (CHR ''{'') = -1"
  then show "extractJSON lib text = Inr empty_envelope"
    by (simp add: extractJSON_catch extractJSON_try_def)
next
  fix start e
  assume "start = indexOf text (CHR ''['') \<and> start \<noteq> -1 \<or>
          indexOf text (CHR ''['') = -1 \<and> start = indexOf text (CHR ''{'') \<and> start \<noteq> -1"
    and f: "jsonrepair lib (slice text start) = Inl e"
  then have "extractJSON_try lib text = repair_and_parse lib (slice text start)"
    by (auto simp: extractJSON_try_def Let_def)
  with f show "extractJSON lib text = Inr empty_envelope"
    by (simp add: extractJSON_catch repair_and_parse_def bindE_def)
next
  fix start repaired e
  assume "start = indexOf text (CHR ''['') \<and> start \<noteq> -1 \<or>
          indexOf text (CHR ''['') = -1 \<and> start = indexOf text (CHR ''{'') \<and> start \<noteq> -1"
    and r: "jsonrepair lib (slice text start) = Inr repaired"
    and f: "JSON_parse lib repaired = Inl e"
  then have "extractJSON_try lib text = repair_and_parse lib (slice text start)"
    by (auto simp: extractJSON_try_def Let_def)
  with r f show "extractJSON lib text = Inr empty_envelope"
    by (simp add: extractJSON_catch repair_and_parse_def bindE_def)
next
  fix start repaired xs
  assume "start = indexOf text (CHR ''['') \<and> start \<noteq> -1 \<or>
          indexOf text (CHR ''['') = -1 \<and> start = indexOf text (CHR ''{'') \<and> start \<noteq> -1"
    and r: "jsonrepair lib (slice text start) = Inr repaired"
    and p: "JSON_parse lib repaired = Inr (JArr xs)"
  then have "extractJSON_try lib text = repair_and_parse lib (slice text start)"
    by (auto simp: extractJSON_try_def Let_def)
  with r p show "extractJSON lib text = Inr (JObj [(''evaluations'', JArr xs)])"
    by (simp add: extractJSON_catch repair_and_parse_def bindE_def)
next
  fix start repaired parsed
  assume "start = indexOf text (CHR ''['') \<and> start \<noteq> -1 \<or>
          indexOf text (CHR ''['') = -1 \<and> start = indexOf text (CHR ''{'') \<and> start \<noteq> -1"
    and r: "jsonrepair lib (slice text start) = Inr repaired"
    and p: "JSON_parse lib repaired = Inr parsed" and n: "\<not> isArray parsed"
  then have "extractJSON_try lib text = repair_and_parse lib (slice text start)"
    by (auto simp: extractJSON_try_def Let_def)
  with r p n show "extractJSON lib text = Inr parsed"
    by (simp add: extractJSON_catch repair_and_parse_def bindE_def)
next
  fix xs show "spec_envelope (JObj [(''evaluations'', JArr xs)])"
    by (simp add: spec_envelope_def)
next
  fix u
  show "normalize_envelope u = (if spec_envelope u then u else empty_envelope)"
  proof (cases "get_prop u ''evaluations''")
    case None
    then show ?thesis by (simp add: normalize_envelope_def spec_envelope_def)
  next
    case (Some x)
    then show ?thesis by (cases x) (simp_all add: normalize_envelope_def spec_envelope_def)
  qed
qed

theorem extractJSON_result_shape_witness:
  "indexOf object_text (CHR ''['') = -1 \<and> indexOf object_text (CHR ''{'') = 0 \<and>
   jsonrepair sample_lib (slice object_text 0) = Inr object_text \<and>
   JSON_parse sample_lib object_text = Inr (JObj [(''a'', JNum 1)]) \<and>
   \<not> isArray (JObj [(''a'', JNum 1)]) \<and>
   extractJSON sample_lib object_text = Inr (JObj [(''a'', JNum 1)]) \<and>
   \<not> spec_envelope (JObj [(''a'', JNum 1)]) \<and>
   normalize_envelope (JObj [(''a'', JNum 1)]) = empty_envelope \<and>
   indexOf prefixed_array_text (CHR ''['') = 12 \<and>
   jsonrepair sample_lib (slice prefixed_array_text 12) = Inr array_text \<and>
   JSON_parse sample_lib array_text = Inr (JArr sample_candidates) \<and>
   extractJSON sample_lib prefixed_array_text
     = Inr (JObj [(''evaluations'', JArr sample_candidates)]) \<and>
   normalize_envelope (JObj [(''evaluations'', JArr sample_candidates)])
     = JObj [(''evaluations'', JArr sample_candidates)]"
proof -
  have i1: "indexOf object_text (CHR ''['') = -1" and i2: "indexOf object_text (CHR ''{'') = 0"
    by (simp_all add: object_text_def dq_def)
  have r1: "jsonrepair sample_lib (slice object_text 0) = Inr object_text"
    by (simp add: sample_lib_def slice_def)
  have p1: "JSON_parse sample_lib object_text = Inr (JObj [(''a'', JNum 1)])"
    by (simp add: sample_lib_def)
  have n1: "\<not> isArray (JObj [(''a'', JNum 1)])" by simp
  have s1: "\<not> spec_envelope (JObj [(''a'', JNum 1)])" by (simp add: spec_envelope_def)
  have i3: "indexOf prefixed_array_text (CHR ''['') = 12"
    by (simp add: prefixed_array_text_def array_text_def dq_def)
  have r2: "jsonrepair sample_lib (slice prefixed_array_text 12) = Inr array_text"
    by (simp add: sample_lib_def slice_def prefixed_array_text_def)
  have p2: "JSON_parse sample_lib array_text = Inr (JArr sample_candidates)"
    by (simp add: sample_lib_def object_text_def array_text_def dq_def)
  note A = extractJSON_result_shape [of sample_lib object_text]
  note B = extractJSON_result_shape [of sample_lib prefixed_array_text]
  from A i1 i2 r1 p1 n1
  have e1: "extractJSON sample_lib object_text = Inr (JObj [(''a'', JNum 1)])" by simp
  from A s1 have m1: "normalize_envelope (JObj [(''a'', JNum 1)]) = empty_envelope" by simp
  from B i3 r2 p2
  have e2: "extractJSON sample_lib prefixed_array_text
              = Inr (JObj [(''evaluations'', JArr sample_candidates)])" by simp
  from B have m2: "normalize_envelope (JObj [(''evaluations'', JArr sample_candidates)])
     = JObj [(''evaluations'', JArr sample_candidates)]" by simp
  from i1 i2 r1 p1 n1 e1 s1 m1 i3 r2 p2 e2 m2 show ?thesis by simp
qed

text \<open>
  C4. \<open>extractJSON\<close> never throws: it returns a value for every input. When the text has
  neither \<open>[\<close> nor \<open>{\<close>, when the repair step throws on the sliced text, when parsing the
  repaired text throws, and whenever anything in the \<open>try\<close> block throws, the value is the
  empty envelope.
\<close>

theorem extractJSON_never_throws:
  "(\<exists>v. extractJSON lib text = Inr v) \<and>
   (CHR ''['' \<notin> set text \<and> CHR ''{'' \<notin> set text \<longrightarrow>
      extractJSON lib text = Inr empty_envelope) \<and>
   (\<forall>e. extractJSON_try lib text = Inl e \<longrightarrow> extractJSON lib text = Inr empty_envelope) \<and>
   (\<forall>start. (start = indexOf text (CHR ''['') \<and> start \<noteq> -1 \<or>
              indexOf text (CHR ''['') = -1 \<and> start = indexOf text (CHR ''{'') \<and> start \<noteq> -1) \<longrightarrow>
      ((\<exists>e. jsonrepair lib (slice text start) = Inl e) \<longrightarrow>
         extractJSON lib text = Inr empty_envelope) \<and>
      (\<forall>repaired. jsonrepair lib (slice text start) = Inr repaired \<longrightarrow>
         (\<exists>e. JSON_parse lib repaired = Inl e) \<longrightarrow>
         extractJSON lib text = Inr empty_envelope))"
proof (intro conjI allI impI)
  show "\<exists>v. extractJSON lib text = Inr v" by (rule extractJSON_total)
next
  assume "CHR ''['' \<notin> set text \<and> CHR ''{'' \<notin> set text"
  then have "indexOf text (CHR ''['') = -1" "indexOf text (CHR ''{'') = -1"
    by (simp_all add: indexOf_absent)
  then show "extractJSON lib text = Inr empty_envelope"
    by (simp add: extractJSON_catch extractJSON_try_def)
next
  fix e assume "extractJSON_try lib text = Inl e"
  then show "extractJSON lib text = Inr empty_envelope" by (simp add: extractJSON_catch)
next
  fix start
  assume s: "start = indexOf text (CHR ''['') \<and> start \<noteq> -1 \<or>
             indexOf text (CHR ''['') = -1 \<and> start = indexOf text (CHR ''{'') \<and> start \<noteq> -1"
    and f: "\<exists>e. jsonrepair lib (slice text start) = Inl e"
  from s have "extractJSON_try lib text = repair_and_parse lib (slice text start)"
    by (auto simp: extractJSON_try_def Let_def)
  with f show "extractJSON lib text = Inr empty_envelope"
    by (auto simp: extractJSON_catch repair_and_parse_def bindE_def)
next
  fix start repaired
  assume s: "start = indexOf text (CHR ''['') \<and> start \<noteq> -1 \<or>
             indexOf text (CHR ''['') = -1 \<and> start = indexOf text (CHR ''{'') \<and> start \<noteq> -1"
    and r: "jsonrepair lib (slice text start) = Inr repaired"
    and f: "\<exists>e. JSON_parse lib repaired = Inl e"
  from s have "extractJSON_try lib text = repair_and_parse lib (slice text start)"
    by (auto simp: extractJSON_try_def Let_def)
  with r f show "extractJSON lib text = Inr empty_envelope"
    by (auto simp: extractJSON_catch repair_and_parse_def bindE_def)
qed

theorem extractJSON_never_throws_witness:
  "CHR ''['' \<notin> set ''no tests here'' \<and> CHR ''{'' \<notin> set ''no tests here'' \<and>
   extractJSON sample_lib ''no tests here'' = Inr empty_envelope \<and>
   indexOf ''so [x'' (CHR ''['') = 3 \<and>
   jsonrepair failing_repair_lib (slice ''so [x'' 3)
     = Inl (ErrorObj ''JSONRepairError'' ''Unexpected character'') \<and>
   extractJSON failing_repair_lib ''so [x'' = Inr empty_envelope \<and>
   jsonrepair sample_lib (slice ''so [x'' 3) = Inr ''[x'' \<and>
   JSON_parse sample_lib ''[x'' = Inl (ErrorObj ''SyntaxError'' ''Unexpected token'') \<and>
   extractJSON sample_lib ''so [x'' = Inr empty_envelope"
proof -
  have i: "indexOf ''so [x'' (CHR ''['') = 3" by simp
  have a: "CHR ''['' \<notin> set ''no tests here'' \<and> CHR ''{'' \<notin> set ''no tests here''" by simp
  have r: "jsonrepair failing_repair_lib (slice ''so [x'' 3)
             = Inl (ErrorObj ''JSONRepairError'' ''Unexpected character'')"
    by (simp add: failing_repair_lib_def)
  have s: "jsonrepair sample_lib (slice ''so [x'' 3) = Inr ''[x''"
    by (simp add: sample_lib_def slice_def)
  have p: "JSON_parse sample_lib ''[x'' = Inl (ErrorObj ''SyntaxError'' ''Unexpected token'')"
    by (simp add: sample_lib_def object_text_def array_text_def)
  from extractJSON_never_throws [of sample_lib "''no tests here''"] a
  have 1: "extractJSON sample_lib ''no tests here'' = Inr empty_envelope" by blast
  from extractJSON_never_throws [of failing_repair_lib "''so [x''"] i r
  have 2: "extractJSON failing_repair_lib ''so [x'' = Inr empty_envelope" by simp
  from extractJSON_never_throws [of sample_lib "''so [x''"] i s p
  have 3: "extractJSON sample_lib ''so [x'' = Inr empty_envelope" by simp
  from a i r s p 1 2 3 show ?thesis by blast
qed

section \<open>Claims about the evaluation filter and the generate-tests handler\<close>

lemma gen_respond_Inr:
  assumes "gen_respond lib env modelText w = (Inr r, w')"
  shows "status r = 200 \<and> (\<exists>t ts st. body r = JObj [(''testCases'', JArr (t # ts)), (''stats'', st)])"
proof -
  from assms obtain ev cands vs tcs where
    vs: "vs \<noteq> []" and tcs: "mapM (testCase env) vs w = (Inr tcs, w')"
    and r: "r = NextResponse_json (JObj [(''testCases'', JArr tcs),
                 (''stats'', stats_json (stats_of cands vs))])"
    by (auto simp: gen_respond_def bind_Inr liftE_apply ret_apply throw_apply Let_def
        split: if_splits)
  from mapM_length [OF tcs] vs obtain t ts where "tcs = t # ts" by (cases tcs) auto
  with r show ?thesis by (simp add: NextResponse_json_def)
qed

lemma gen_respond_none_valid:
  assumes "extractJSON lib modelText = Inr ev"
    and "array_items (get_prop (normalize_envelope ev) ''evaluations'') = Inr cands"
    and "filter isValidEvaluation cands = []"
  shows "gen_respond lib env modelText w = (Inl (new_Error ''No valid evaluations generated''), w)"
  using assms
  by (simp add: gen_respond_def bind_def liftE_def throw_def validEvaluations_def)

text \<open>
  C6. When the model call has returned a text, its candidate entries are defined, and when
  none of them passes the validity filter, the handler answers with the error body whose
  \<open>details\<close> is
  \<open>No valid evaluations generated\<close> and with status 500. The handler always answers, and
  never with an empty \<open>testCases\<close> array: a response with status 200 has at least one test case.
\<close>

theorem gen_POST_no_valid_evaluations:
  "(\<forall>modelText w1.
      gen_ask_model env w = (Inr modelText, w1) \<longrightarrow>
      (\<exists>ev cands.
         extractJSON lib modelText = Inr ev \<and>
         array_items (get_prop (normalize_envelope ev) ''evaluations'') = Inr cands \<and>
         (filter isValidEvaluation cands = [] \<longrightarrow>
          gen_POST lib env w =
            (Inr \<lparr>body = JObj [(''error'', JStr ''Failed to generate evaluations''),
                               (''details'', JStr ''No valid evaluations generated'')],
                  status = 500\<rparr>, w1)))) \<and>
   (\<exists>r w'. gen_POST lib env w = (Inr r, w') \<and>
      get_prop (body r) ''testCases'' \<noteq> Some (JArr []) \<and>
      (status r = 200 \<or> status r = 500) \<and>
      (status r = 200 \<longrightarrow> (\<exists>t ts. get_prop (body r) ''testCases'' = Some (JArr (t # ts)))))"
proof (intro conjI allI impI)
  fix modelText w1
  assume ask: "gen_ask_model env w = (Inr modelText, w1)"
  from extractJSON_total obtain ev where ev: "extractJSON lib modelText = Inr ev" by blast
  from candidates_total obtain cands where
    cands: "array_items (get_prop (normalize_envelope ev) ''evaluations'') = Inr cands" by blast
  have "gen_POST lib env w =
        (Inr \<lparr>body = JObj [(''error'', JStr ''Failed to generate evaluations''),
                           (''details'', JStr ''No valid evaluations generated'')],
              status = 500\<rparr>, w1)"
    if "filter isValidEvaluation cands = []"
    using ask ev cands that
    by (simp add: gen_POST_def catch_def bind_step gen_respond_none_valid ret_def
        gen_error_response_def new_Error_def NextResponse_json_status_def)
  with ev cands show "\<exists>ev cands.
         extractJSON lib modelText = Inr ev \<and>
         array_items (get_prop (normalize_envelope ev) ''evaluations'') = Inr cands \<and>
         (filter isValidEvaluation cands = [] \<longrightarrow>
          gen_POST lib env w =
            (Inr \<lparr>body = JObj [(''error'', JStr ''Failed to generate evaluations''),
                               (''details'', JStr ''No valid evaluations generated'')],
                  status = 500\<rparr>, w1))"
    by blast
next
  show "\<exists>r w'. gen_POST lib env w = (Inr r, w') \<and>
      get_prop (body r) ''testCases'' \<noteq> Some (JArr []) \<and>
      (status r = 200 \<or> status r = 500) \<and>
      (status r = 200 \<longrightarrow> (\<exists>t ts. get_prop (body r) ''testCases'' = Some (JArr (t # ts))))"
  proof (cases "bind (gen_ask_model env) (gen_respond lib env) w")
    case (Pair res w')
    show ?thesis
    proof (cases res)
      case (Inl e)
      with Pair have "gen_POST lib env w = (Inr (gen_error_response e), w')"
        by (simp add: gen_POST_def catch_def ret_def)
      then show ?thesis
        by (simp add: gen_error_response_def NextResponse_json_status_def)
    next
      case (Inr r)
      with Pair obtain modelText w1 where "gen_respond lib env modelText w1 = (Inr r, w')"
        by (auto simp: bind_Inr)
      from gen_respond_Inr [OF this] obtain t ts st where
        "status r = 200" "body r = JObj [(''testCases'', JArr (t # ts)), (''stats'', st)]"
        by blast
      moreover from Pair Inr have "gen_POST lib env w = (Inr r, w')"
        by (simp add: gen_POST_def catch_def)
      ultimately show ?thesis by simp
    qed
  qed
qed

theorem gen_POST_no_valid_evaluations_witness:
  "gen_ask_model (sample_gen_env object_text) 0 = (Inr object_text, 0) \<and>
   extractJSON sample_lib object_text = Inr (JObj [(''a'', JNum 1)]) \<and>
   array_items (get_prop (normalize_envelope (JObj [(''a'', JNum 1)])) ''evaluations'') = Inr [] \<and>
   gen_POST sample_lib (sample_gen_env object_text) 0 =
     (Inr \<lparr>body = JObj [(''error'', JStr ''Failed to generate evaluations''),
                        (''details'', JStr ''No valid evaluations generated'')],
           status = 500\<rparr>, 0)"
proof -
  have a: "gen_ask_model (sample_gen_env object_text) 0 = (Inr object_text, 0)"
    by (simp add: gen_ask_model_def sample_gen_env_def bind_def ret_def liftE_def)
  have b: "extractJSON sample_lib object_text = Inr (JObj [(''a'', JNum 1)])"
    by (simp add: extractJSON_def catchE_def extractJSON_try_def repair_and_parse_def bindE_def
        sample_lib_def object_text_def dq_def slice_def)
  have c: "array_items (get_prop (normalize_envelope (JObj [(''a'', JNum 1)])) ''evaluations'')
             = Inr []"
    by (simp add: normalize_envelope_def empty_envelope_def)
  from gen_POST_no_valid_evaluations [of "sample_gen_env object_text" 0 sample_lib] a
  obtain ev cands where
    ev: "extractJSON sample_lib object_text = Inr ev"
    and cands: "array_items (get_prop (normalize_envelope ev) ''evaluations'') = Inr cands"
    and none: "filter isValidEvaluation cands = [] \<longrightarrow>
      gen_POST sample_lib (sample_gen_env object_text) 0 =
        (Inr \<lparr>body = JObj [(''error'', JStr ''Failed to generate evaluations''),
                           (''details'', JStr ''No valid evaluations generated'')],
              status = 500\<rparr>, 0)"
    by blast
  from ev b have "ev = JObj [(''a'', JNum 1)]" by simp
  with cands c have "cands = []" by simp
  with none a b c show ?thesis by simp
qed

text \<open>
  C7. For every candidate list the filter step returns a list of entries without throwing.
  Each surviving entry comes, in order, from a candidate that passed \<open>isValidEvaluation\<close>,
  whose \<open>scenario\<close> and \<open>expectedOutput\<close> are strings; the entry holds their trimmed values,
  which are not empty and are equal to their own trim. In the reported stats,
  \<open>valid + filtered = total\<close>, \<open>total\<close> is the number of candidates and \<open>valid\<close> the number
  of survivors.
\<close>

theorem filter_trims_and_counts:
  "\<exists>vs. validEvaluations candidates = Inr vs \<and>
     list_all2 (\<lambda>c v. isValidEvaluation c \<and>
                  (\<exists>s e. get_prop c ''scenario'' = Some (JStr s) \<and>
                         get_prop c ''expectedOutput'' = Some (JStr e) \<and>
                         scenario v = trim s \<and> expectedOutput v = trim e))
       (filter isValidEvaluation candidates) vs \<and>
     (\<forall>v\<in>set vs. 0 < length (trim (scenario v)) \<and> 0 < length (trim (expectedOutput v)) \<and>
                 trim (scenario v) = scenario v \<and> trim (expectedOutput v) = expectedOutput v) \<and>
     valid (stats_of candidates vs) + filtered (stats_of candidates vs)
       = total (stats_of candidates vs) \<and>
     total (stats_of candidates vs) = int (length candidates) \<and>
     valid (stats_of candidates vs) = int (length vs) \<and>
     0 \<le> filtered (stats_of candidates vs)"
proof -
  let ?R = "\<lambda>c v. isValidEvaluation c \<and>
                  (\<exists>s e. get_prop c ''scenario'' = Some (JStr s) \<and>
                         get_prop c ''expectedOutput'' = Some (JStr e) \<and>
                         trim s \<noteq> [] \<and> trim e \<noteq> [] \<and>
                         v = \<lparr>scenario = trim s, expectedOutput = trim e\<rparr>)"
  from validEvaluations_total [of candidates] obtain vs where
    vs: "validEvaluations candidates = Inr vs"
    and rel: "list_all2 ?R (filter isValidEvaluation candidates) vs"
    by blast
  have 1: "list_all2 (\<lambda>c v. isValidEvaluation c \<and>
                  (\<exists>s e. get_prop c ''scenario'' = Some (JStr s) \<and>
                         get_prop c ''expectedOutput'' = Some (JStr e) \<and>
                         scenario v = trim s \<and> expectedOutput v = trim e))
       (filter isValidEvaluation candidates) vs"
  proof (rule list_all2_mono [OF rel])
    fix c v
    assume "?R c v"
    then show "isValidEvaluation c \<and>
                  (\<exists>s e. get_prop c ''scenario'' = Some (JStr s) \<and>
                         get_prop c ''expectedOutput'' = Some (JStr e) \<and>
                         scenario v = trim s \<and> expectedOutput v = trim e)"
      by auto
  qed
  have 2: "0 < length (trim (scenario v)) \<and> 0 < length (trim (expectedOutput v)) \<and>
           trim (scenario v) = scenario v \<and> trim (expectedOutput v) = expectedOutput v"
    if "v \<in> set vs" for v
  proof -
    from that obtain i where i: "i < length vs" and v: "v = vs ! i"
      by (auto simp: in_set_conv_nth)
    from rel i have "?R (filter isValidEvaluation candidates ! i) (vs ! i)"
      by (simp add: list_all2_conv_all_nth)
    with v show ?thesis by (auto simp: trim_idem)
  qed
  have len: "length vs \<le> length candidates"
    using list_all2_lengthD [OF rel] length_filter_le [of isValidEvaluation candidates] by simp
  then have 3: "valid (stats_of candidates vs) + filtered (stats_of candidates vs)
       = total (stats_of candidates vs) \<and>
     total (stats_of candidates vs) = int (length candidates) \<and>
     valid (stats_of candidates vs) = int (length vs) \<and>
     0 \<le> filtered (stats_of candidates vs)"
    by (simp add: stats_of_def)
  from vs 1 2 3 show ?thesis by blast
qed

theorem filter_trims_and_counts_witness:
  "validEvaluations sample_candidates = Inr [\<lparr>scenario = ''a'', expectedOutput = ''b''\<rparr>] \<and>
   filter isValidEvaluation sample_candidates
     = [JObj [(''scenario'', JStr ''a''), (''expectedOutput'', JStr ''b'')]] \<and>
   total (stats_of sample_candidates [\<lparr>scenario = ''a'', expectedOutput = ''b''\<rparr>]) = 2 \<and>
   valid (stats_of sample_candidates [\<lparr>scenario = ''a'', expectedOutput = ''b''\<rparr>]) = 1 \<and>
   filtered (stats_of sample_candidates [\<lparr>scenario = ''a'', expectedOutput = ''b''\<rparr>]) = 1"
  using filter_trims_and_counts [of sample_candidates]
  by (simp add: validEvaluations_def sample_candidates_def isValidEvaluation_def
      trimEvaluation_def bindE_def trim_def isWhiteSpace_def stats_of_def)

text \<open>The scenario of the specification, through the whole handler: two candidates, one
  survivor, one rejected.\<close>

lemma gen_POST_spec_scenario:
  "gen_POST sample_lib (sample_gen_env prefixed_array_text) 0 =
     (Inr \<lparr>body =
             JObj [(''testCases'',
                    JArr [JObj [(''id'', JStr ''uuid''), (''scenario'', JStr ''a''),
                                (''expectedOutput'', JStr ''b'')]]),
                   (''stats'',
                    JObj [(''total'', JNum 2), (''valid'', JNum 1), (''filtered'', JNum 1)])],
           status = 200\<rparr>, 1)"
proof -
  have ask: "gen_ask_model (sample_gen_env prefixed_array_text) 0 = (Inr prefixed_array_text, 0)"
    by (simp add: gen_ask_model_def sample_gen_env_def bind_def ret_def liftE_def)
  have ex: "extractJSON sample_lib prefixed_array_text
              = Inr (JObj [(''evaluations'', JArr sample_candidates)])"
    by (simp add: extractJSON_def catchE_def extractJSON_try_def repair_and_parse_def bindE_def
        sample_lib_def prefixed_array_text_def array_text_def object_text_def dq_def slice_def)
  have norm: "normalize_envelope (JObj [(''evaluations'', JArr sample_candidates)])
                = JObj [(''evaluations'', JArr sample_candidates)]"
    by (simp add: normalize_envelope_def)
  have vs: "validEvaluations sample_candidates = Inr [\<lparr>scenario = ''a'', expectedOutput = ''b''\<rparr>]"
    by (simp add: validEvaluations_def sample_candidates_def isValidEvaluation_def
        trimEvaluation_def bindE_def trim_def isWhiteSpace_def)
  have st: "stats_json (stats_of sample_candidates [\<lparr>scenario = ''a'', expectedOutput = ''b''\<rparr>])
              = JObj [(''total'', JNum 2), (''valid'', JNum 1), (''filtered'', JNum 1)]"
    by (simp add: stats_json_def stats_of_def sample_candidates_def)
  have "gen_respond sample_lib (sample_gen_env prefixed_array_text) prefixed_array_text 0 =
     (Inr \<lparr>body =
             JObj [(''testCases'',
                    JArr [JObj [(''id'', JStr ''uuid''), (''scenario'', JStr ''a''),
                                (''expectedOutput'', JStr ''b'')]]),
                   (''stats'',
                    JObj [(''total'', JNum 2), (''valid'', JNum 1), (''filtered'', JNum 1)])],
           status = 200\<rparr>, 1)"
    by (simp add: gen_respond_def ex norm vs st bind_def liftE_def ret_def lift_def
        testCase_def NextResponse_json_def sample_gen_env_def)
  with ask show ?thesis by (simp add: gen_POST_def catch_def bind_def)
qed

section \<open>Claims about the analyze-results handler\<close>

text \<open>
  C9 (as stated, refuted). The claim says the endpoint answers 400 whenever the model
  configuration is missing. For a request whose body cannot be read and whose headers carry no
  configuration, the handler answers 500: the body is read and validated before the
  configuration is looked up.
\<close>

theorem an_POST_malformed_body_counterexample:
  "getLLMConfigForActiveModel (sample_an_env malformed_body)
     (an_req_headers (sample_an_env malformed_body)) = Inr None \<and>
   an_POST (sample_an_env malformed_body) 0 =
     (Inr \<lparr>body = JObj [(''error'', JStr ''Failed to analyze results'')], status = 500\<rparr>, 0)"
  by (simp add: an_POST_def an_POST_try_def catch_def bind_def liftE_def ret_def
      sample_an_env_def malformed_body_def an_error_response_def NextResponse_json_status_def)

text \<open>
  C9 (amended). When the request body has been read and has passed validation, and the
  configuration derived from the request headers is missing or invalid (the lookup returns a
  falsy value), the endpoint answers with status 400 and the error message
  \<open>Missing or invalid LLM configuration\<close>. No model is created or invoked: the answer and
  the world after it are the same whatever the model factory and the chain would do.
\<close>

theorem an_POST_missing_config:
  assumes "an_req_json env w = (Inr reqBody, w1)"
    and "validateAnalyzeResultsRequest env reqBody = Inr results"
    and "getLLMConfigForActiveModel env (an_req_headers env) = Inr None"
  shows "an_POST env w =
           (Inr \<lparr>body = JObj [(''error'', JStr ''Missing or invalid LLM configuration'')],
                 status = 400\<rparr>, w1) \<and>
         (\<forall>mk inv. an_POST (env\<lparr>an_createLangchainModel := mk, an_chain_invoke := inv\<rparr>) w
                      = an_POST env w)"
  using assms
  by (simp add: an_POST_def an_POST_try_def catch_def bind_def liftE_def ret_def
      missing_config_response_def NextResponse_json_status_def)

theorem an_POST_missing_config_witness:
  "an_req_json (sample_an_env (Inr (JObj [(''results'', JArr [])]))) 0
     = (Inr (JObj [(''results'', JArr [])]), 0) \<and>
   getLLMConfigForActiveModel (sample_an_env (Inr (JObj [(''results'', JArr [])])))
     (an_req_headers (sample_an_env (Inr (JObj [(''results'', JArr [])])))) = Inr None \<and>
   an_POST (sample_an_env (Inr (JObj [(''results'', JArr [])]))) 0 =
     (Inr \<lparr>body = JObj [(''error'', JStr ''Missing or invalid LLM configuration'')],
           status = 400\<rparr>, 0)"
proof -
  let ?env = "sample_an_env (Inr (JObj [(''results'', JArr [])]))"
  have a: "an_req_json ?env 0 = (Inr (JObj [(''results'', JArr [])]), 0)"
    by (simp add: sample_an_env_def liftE_def)
  have b: "validateAnalyzeResultsRequest ?env (JObj [(''results'', JArr [])])
             = Inr (JObj [(''results'', JArr [])])"
    by (simp add: sample_an_env_def)
  have c: "getLLMConfigForActiveModel ?env (an_req_headers ?env) = Inr None"
    by (simp add: sample_an_env_def)
  from an_POST_missing_config [OF a b c] a c show ?thesis by blast
qed

subsection \<open>\<open>runTest\<close>: transcript entries and the follow-up turn\<close>

lemma new_message_apply:
  "uuidv4 env w = (uuid, w') \<Longrightarrow>
   new_message env cid r msg rt w =
     (Inr \<lparr>msg_id = uuid, chatId = cid, role = r, content = msg,
            metrics = \<lparr>responseTime = rt, validationScore = 1\<rparr>\<rparr>, w')"
  by (simp add: new_message_def bind_def lift_def ret_def)

lemma new_message_Inr:
  assumes "new_message env cid r msg rt w = (Inr m, w')"
  shows "chatId m = cid \<and> role m = r \<and> content m = msg"
proof -
  obtain uuid w1 where "uuidv4 env w = (uuid, w1)" by (cases "uuidv4 env w")
  from new_message_apply [OF this, of cid r msg rt] assms show ?thesis by auto
qed

lemma ret_Inr: "ret x w = (Inr y, w') \<longleftrightarrow> y = x \<and> w' = w"
  by (auto simp: ret_def)

lemma guarded_call_Inr:
  "catch (bind call (\<lambda>apiResp. ret (apiResp, f apiResp))) (\<lambda>error. throw (timeout_handler error)) w
     = (Inr (r, c), w') \<longleftrightarrow> call w = (Inr r, w') \<and> c = f r"
  by (cases "call w") (auto simp: catch_def bind_def ret_def throw_def split: sum.splits)

lemma followUpTurn_Inr:
  assumes "followUpTurn env agent vars plannedTurn w = (Inr vars', w')"
  shows "\<exists>followUpResult w1 startTime w2 apiResp w3 m1 m2.
           chain_invoke env (followUp_prompt (v_chatResponse vars) plannedTurn) w
             = (Inr followUpResult, w1) \<and>
           Date_now env w1 = (startTime, w2) \<and>
           callEndpoint env (endpointUrl (config agent)) (headers (config agent))
             (formatInput env (extractTestMessage env followUpResult)
                (inputFormat (apiConfig (config agent)))) w2 = (Inr apiResp, w3) \<and>
           v_apiResponse vars' = apiResp \<and>
           v_chatResponse vars' = extractChatResponse env apiResp (rules (apiConfig (config agent))) \<and>
           v_allMessages vars' = v_allMessages vars @ [m1, m2] \<and>
           role m1 = User \<and> role m2 = Assistant \<and>
           chatId m1 = v_chatId vars \<and> chatId m2 = v_chatId vars \<and>
           v_chatId vars' = v_chatId vars \<and>
           v_testMessage vars' = v_testMessage vars \<and>
           v_formattedInput vars' = v_formattedInput vars \<and>
           v_conversationPlan vars' = v_conversationPlan vars"
  using assms unfolding followUpTurn_def Let_def
  by (auto simp: bind_Inr lift_Inr guarded_call_Inr ret_Inr dest!: new_message_Inr)

lemma followUpTurn_call_fails:
  assumes "chain_invoke env (followUp_prompt (v_chatResponse vars) plannedTurn) w
             = (Inr followUpResult, w1)"
    and "Date_now env w1 = (startTime, w2)"
    and "callEndpoint env (endpointUrl (config agent)) (headers (config agent))
           (formatInput env (extractTestMessage env followUpResult)
              (inputFormat (apiConfig (config agent)))) w2 = (Inl error, w3)"
  shows "followUpTurn env agent vars plannedTurn w = (Inl (timeout_handler error), w3)"
  using assms unfolding followUpTurn_def Let_def
  by (simp add: bind_def lift_def catch_def throw_def)

subsection \<open>\<open>runTest\<close>: the loop\<close>

lemma forEachTurn_append:
  "forEachTurn env agent vars before w = (Inr vars1, w1) \<Longrightarrow>
   forEachTurn env agent vars (before @ rest) w = forEachTurn env agent vars1 rest w1"
proof (induction before arbitrary: vars w)
  case Nil
  then show ?case by (simp add: ret_def)
next
  case (Cons p ps)
  from Cons.prems obtain v w2 where
    p: "followUpTurn env agent vars p w = (Inr v, w2)"
    and ps: "forEachTurn env agent v ps w2 = (Inr vars1, w1)"
    by (auto simp: bind_Inr)
  from Cons.IH [OF ps] p show ?case by (simp add: bind_step)
qed

lemma forEachTurn_Inr:
  "forEachTurn env agent vars plan w = (Inr vars', w') \<Longrightarrow>
   map role (v_allMessages vars')
     = map role (v_allMessages vars) @ concat (replicate (length plan) [User, Assistant]) \<and>
   map chatId (v_allMessages vars')
     = map chatId (v_allMessages vars) @ replicate (2 * length plan) (v_chatId vars) \<and>
   v_chatId vars' = v_chatId vars \<and>
   v_testMessage vars' = v_testMessage vars \<and>
   v_formattedInput vars' = v_formattedInput vars"
proof (induction plan arbitrary: vars w)
  case Nil
  then show ?case by (simp add: ret_def)
next
  case (Cons p ps)
  from Cons.prems obtain v w2 where
    p: "followUpTurn env agent vars p w = (Inr v, w2)"
    and ps: "forEachTurn env agent v ps w2 = (Inr vars', w')"
    by (auto simp: bind_Inr)
  from followUpTurn_Inr [OF p] obtain m1 m2 where
    "v_allMessages v = v_allMessages vars @ [m1, m2]" "role m1 = User" "role m2 = Assistant"
    "chatId m1 = v_chatId vars" "chatId m2 = v_chatId vars" "v_chatId v = v_chatId vars"
    "v_testMessage v = v_testMessage vars" "v_formattedInput v = v_formattedInput vars"
    by blast
  with Cons.IH [OF ps] show ?case by simp
qed

lemma followUps_eq:
  "followUps env agent vars =
     forEachTurn env agent vars (case v_conversationPlan vars of None \<Rightarrow> [] | Some plan \<Rightarrow> plan)"
  by (cases "v_conversationPlan vars") (auto simp: followUps_def)

subsection \<open>\<open>runTest\<close>: the first turn, the last steps, the whole run\<close>

lemma runTest_initial_Inr:
  assumes "runTest_initial env agent scen expected w = (Inr vars0, w0)"
  shows "\<exists>planResult w1.
           chain_invoke env (plan_prompt scen expected) w = (Inr planResult, w1) \<and>
           v_testMessage vars0 = extractTestMessage env planResult \<and>
           v_conversationPlan vars0 = extractConversationPlan env planResult \<and>
           v_formattedInput vars0 =
             formatInput env (extractTestMessage env planResult)
               (inputFormat (apiConfig (config agent))) \<and>
           map role (v_allMessages vars0) = [User, Assistant] \<and>
           map chatId (v_allMessages vars0) = [v_chatId vars0, v_chatId vars0]"
  using assms unfolding runTest_initial_def Let_def
  by (auto simp: bind_Inr lift_Inr ret_Inr dest!: new_message_Inr)

lemma runTest_finish_Inr:
  assumes "runTest_finish env agent scen expected vars w = (Inr (res, agent'), w')"
  shows "humanMessage (conversation res) = v_testMessage vars \<and>
         rawInput (conversation res) = v_formattedInput vars \<and>
         rawOutput (conversation res) = v_apiResponse vars \<and>
         chatResponse (conversation res) = v_chatResponse vars \<and>
         allMessages (conversation res) = v_allMessages vars \<and>
         passedTest (validation res)
           = (formatValid (validation res) \<and> conditionMet (validation res)) \<and>
         formatValid (validation res)
           = validateResponseFormat env (v_apiResponse vars)
               (outputFormat (apiConfig (config agent))) \<and>
         conditionMet (validation res)
           = validateCondition env (v_apiResponse vars) (rules (apiConfig (config agent))) \<and>
         memory agent' = memory agent @ [HumanMessage (v_testMessage vars),
                                          AIMessage (v_chatResponse vars)]"
  using assms unfolding runTest_finish_def Let_def
  by (auto simp: bind_Inr ret_def saveContext_def)

lemma runTest_eq:
  "runTest env agent scen expected =
     bind (runTest_initial env agent scen expected) (\<lambda>vars0.
     bind (followUps env agent vars0) (\<lambda>vars.
       runTest_finish env agent scen expected vars))"
  by (simp add: runTest_def catch_rethrow)

lemma runTest_Inr:
  assumes "runTest env agent scen expected w = (Inr (res, agent'), w')"
  shows "\<exists>vars0 w0 vars w1.
           runTest_initial env agent scen expected w = (Inr vars0, w0) \<and>
           followUps env agent vars0 w0 = (Inr vars, w1) \<and>
           runTest_finish env agent scen expected vars w1 = (Inr (res, agent'), w')"
  using assms by (auto simp: runTest_eq bind_Inr)

subsection \<open>\<open>runTest\<close>: what each transcript entry holds\<close>

lemma followUpTurn_contents:
  assumes "followUpTurn env agent vars plannedTurn w = (Inr vars', w')"
  shows "\<exists>followUpResult w1 startTime w2 apiResp w3 m1 m2.
           chain_invoke env (followUp_prompt (v_chatResponse vars) plannedTurn) w
             = (Inr followUpResult, w1) \<and>
           Date_now env w1 = (startTime, w2) \<and>
           callEndpoint env (endpointUrl (config agent)) (headers (config agent))
             (formatInput env (extractTestMessage env followUpResult)
                (inputFormat (apiConfig (config agent)))) w2 = (Inr apiResp, w3) \<and>
           v_allMessages vars' = v_allMessages vars @ [m1, m2] \<and>
           content m1 = extractTestMessage env followUpResult \<and>
           content m2 = extractChatResponse env apiResp (rules (apiConfig (config agent)))"
  using assms unfolding followUpTurn_def Let_def
  by (auto simp: bind_Inr lift_Inr guarded_call_Inr ret_Inr dest!: new_message_Inr)

lemma runTest_initial_contents:
  assumes "runTest_initial env agent scen expected w = (Inr vars0, w0)"
  shows "\<exists>planResult w1 startTime w2 apiResp w3 m1 m2.
           chain_invoke env (plan_prompt scen expected) w = (Inr planResult, w1) \<and>
           Date_now env w1 = (startTime, w2) \<and>
           callEndpoint env (endpointUrl (config agent)) (headers (config agent))
             (formatInput env (extractTestMessage env planResult)
                (inputFormat (apiConfig (config agent)))) w2 = (Inr apiResp, w3) \<and>
           v_allMessages vars0 = [m1, m2] \<and>
           content m1 = extractTestMessage env planResult \<and>
           content m2 = extractChatResponse env apiResp (rules (apiConfig (config agent)))"
  using assms unfolding runTest_initial_def Let_def
  by (auto simp: bind_Inr lift_Inr ret_Inr dest!: new_message_Inr)

lemma forEachTurn_messages:
  "forEachTurn env agent vars plan w = (Inr vars', w') \<Longrightarrow>
   \<exists>suffix. v_allMessages vars' = v_allMessages vars @ suffix \<and> length suffix = 2 * length plan"
proof (induction plan arbitrary: vars w)
  case Nil
  then show ?case by (simp add: ret_def)
next
  case (Cons p ps)
  from Cons.prems obtain v w2 where
    p: "followUpTurn env agent vars p w = (Inr v, w2)"
    and ps: "forEachTurn env agent v ps w2 = (Inr vars', w')"
    by (auto simp: bind_Inr)
  from followUpTurn_Inr [OF p] obtain m1 m2 where
    v: "v_allMessages v = v_allMessages vars @ [m1, m2]" by blast
  from Cons.IH [OF ps] obtain suffix where
    "v_allMessages vars' = v_allMessages v @ suffix" "length suffix = 2 * length ps" by blast
  with v have "v_allMessages vars' = v_allMessages vars @ ([m1, m2] @ suffix) \<and>
               length ([m1, m2] @ suffix) = 2 * length (p # ps)" by simp
  then show ?case by blast
qed

lemma nth_after_prefix:
  "length pre = n \<Longrightarrow> (pre @ x # y # rest) ! n = x \<and> (pre @ x # y # rest) ! (n + 1) = y"
  by (auto simp: nth_append)

section \<open>Claims about \<open>runTest\<close>\<close>

lemmas io_defs = bind_def ret_def throw_def catch_def lift_def liftE_def

lemmas sample_run_defs =
  runTest_def runTest_initial_def followUps_def followUpTurn_def runTest_finish_def
  new_message_def timeout_handler_def new_Error_def saveContext_def
  sample_qa_env_def sample_agent_def abort_error_def Let_def

lemma sample_run:
  "runTest (sample_qa_env None) sample_agent ''s'' ''e'' 0 =
     (Inr (\<lparr>conversation =
              \<lparr>humanMessage = ''hello'',
               rawInput = JObj [(''message'', JStr ''hello'')],
               rawOutput = JStr ''second reply'',
               chatResponse = ''second reply'',
               allMessages =
                 [\<lparr>msg_id = ''uuid'', chatId = ''uuid'', role = User, content = ''hello'',
                   metrics = \<lparr>responseTime = 5, validationScore = 1\<rparr>\<rparr>,
                  \<lparr>msg_id = ''uuid'', chatId = ''uuid'', role = Assistant,
                   content = ''first reply'',
                   metrics = \<lparr>responseTime = 5, validationScore = 1\<rparr>\<rparr>,
                  \<lparr>msg_id = ''uuid'', chatId = ''uuid'', role = User, content = ''and then?'',
                   metrics = \<lparr>responseTime = 5, validationScore = 1\<rparr>\<rparr>,
                  \<lparr>msg_id = ''uuid'', chatId = ''uuid'', role = Assistant,
                   content = ''second reply'',
                   metrics = \<lparr>responseTime = 5, validationScore = 1\<rparr>\<rparr>]\<rparr>,
            validation =
              \<lparr>passedTest = True, formatValid = True, conditionMet = True,
               explanation = ''looks fine'', validation_responseTime = 10\<rparr>\<rparr>,
           sample_agent\<lparr>memory := [HumanMessage ''hello'', AIMessage ''second reply'']\<rparr>),
      2)"
  by (simp add: sample_run_defs io_defs)

lemma sample_initial:
  "runTest_initial (sample_qa_env failure) sample_agent ''s'' ''e'' 0 = (Inr sample_vars0, 1)"
  by (simp add: sample_run_defs sample_vars0_def io_defs)

lemma sample_followUp_model:
  "chain_invoke (sample_qa_env failure) (followUp_prompt (v_chatResponse sample_vars0) ''ask again'') 1
     = (Inr ''and then?'', 1)"
  by (simp add: sample_qa_env_def)

lemma sample_followUp_clock: "Date_now (sample_qa_env failure) 1 = (5, 1)"
  by (simp add: sample_qa_env_def)

lemma sample_plan: "v_conversationPlan sample_vars0 = Some ([] @ ''ask again'' # [])"
  by (simp add: sample_vars0_def)

lemma sample_no_turns_before:
  "forEachTurn (sample_qa_env failure) sample_agent sample_vars0 [] 1 = (Inr sample_vars0, 1)"
  by (simp add: ret_def)

text \<open>
  C1 (the code at the failing input). With one planned follow-up turn, a target API that
  answers \<open>first reply\<close> and then \<open>second reply\<close>, the run succeeds, the transcript holds
  both replies in order, and the history of the agent afterwards pairs the first human
  message with the reply of the second turn.
\<close>

theorem runTest_memory_holds_last_reply:
  "map_sum id (\<lambda>r. getHistory (snd r)) (fst (runTest (sample_qa_env None) sample_agent ''s'' ''e'' 0))
     = Inr [HumanMessage ''hello'', AIMessage ''second reply''] \<and>
   map_sum id (\<lambda>r. map content (allMessages (conversation (fst r))))
       (fst (runTest (sample_qa_env None) sample_agent ''s'' ''e'' 0))
     = Inr [''hello'', ''first reply'', ''and then?'', ''second reply'']"
  by (simp add: sample_run getHistory_def)

text \<open>
  C3. When the planning call returns a text whose conversation plan has \<open>N\<close> follow-up turns
  (none when the plan is absent) and \<open>runTest\<close> succeeds, the transcript has \<open>2 * (N + 1)\<close>
  entries, their roles alternate user, assistant from the first entry on, and all of them
  carry one \<open>chatId\<close>. The entries stand in the order of the sends: entries 0 and 1 hold
  the first test message and the reply extracted from the first response of the target API,
  and for the follow-up turn that comes after \<open>k\<close> earlier follow-up turns, entries
  \<open>2 * (k + 1)\<close> and \<open>2 * (k + 1) + 1\<close> hold the message sent in that turn and the reply
  extracted from the response to it.
\<close>

theorem runTest_transcript:
  assumes "chain_invoke env (plan_prompt scen expected) w = (Inr planResult, wp)"
    and "runTest env agent scen expected w = (Inr (res, agent'), w')"
    and "N = (case extractConversationPlan env planResult of None \<Rightarrow> 0 | Some plan \<Rightarrow> length plan)"
  shows "length (allMessages (conversation res)) = 2 * (N + 1) \<and>
         map role (allMessages (conversation res)) = concat (replicate (N + 1) [User, Assistant]) \<and>
         (\<exists>cid. map chatId (allMessages (conversation res)) = replicate (2 * (N + 1)) cid) \<and>
         content (allMessages (conversation res) ! 0) = extractTestMessage env planResult \<and>
         (\<forall>startTime w2 firstResponse w3.
            Date_now env wp = (startTime, w2) \<longrightarrow>
            callEndpoint env (endpointUrl (config agent)) (headers (config agent))
              (formatInput env (extractTestMessage env planResult)
                 (inputFormat (apiConfig (config agent)))) w2 = (Inr firstResponse, w3) \<longrightarrow>
            content (allMessages (conversation res) ! 1)
              = extractChatResponse env firstResponse (rules (apiConfig (config agent)))) \<and>
         (\<forall>vars0 w0 before plannedTurn rest vars1 w1 followUpResult w2 startTime w3 apiResp w4.
            runTest_initial env agent scen expected w = (Inr vars0, w0) \<longrightarrow>
            extractConversationPlan env planResult = Some (before @ plannedTurn # rest) \<longrightarrow>
            forEachTurn env agent vars0 before w0 = (Inr vars1, w1) \<longrightarrow>
            chain_invoke env (followUp_prompt (v_chatResponse vars1) plannedTurn) w1
              = (Inr followUpResult, w2) \<longrightarrow>
            Date_now env w2 = (startTime, w3) \<longrightarrow>
            callEndpoint env (endpointUrl (config agent)) (headers (config agent))
              (formatInput env (extractTestMessage env followUpResult)
                 (inputFormat (apiConfig (config agent)))) w3 = (Inr apiResp, w4) \<longrightarrow>
            content (allMessages (conversation res) ! (2 * (length before + 1)))
              = extractTestMessage env followUpResult \<and>
            content (allMessages (conversation res) ! (2 * (length before + 1) + 1))
              = extractChatResponse env apiResp (rules (apiConfig (config agent))))"
proof -
  from runTest_Inr [OF assms(2)] obtain vars0 w0 vars w1 where
    init: "runTest_initial env agent scen expected w = (Inr vars0, w0)"
    and loop: "followUps env agent vars0 w0 = (Inr vars, w1)"
    and fin: "runTest_finish env agent scen expected vars w1 = (Inr (res, agent'), w')"
    by blast
  from runTest_initial_Inr [OF init] assms(1) have
    plan: "v_conversationPlan vars0 = extractConversationPlan env planResult"
    and r0: "map role (v_allMessages vars0) = [User, Assistant]"
    and c0: "map chatId (v_allMessages vars0) = [v_chatId vars0, v_chatId vars0]"
    by auto
  let ?plan = "case v_conversationPlan vars0 of None \<Rightarrow> [] | Some plan \<Rightarrow> plan"
  from plan assms(3) have N: "N = length ?plan" by (simp split: option.splits)
  from loop have whole: "forEachTurn env agent vars0 ?plan w0 = (Inr vars, w1)"
    by (simp add: followUps_eq)
  from forEachTurn_Inr [OF whole] r0 c0 N have
    r: "map role (v_allMessages vars) = concat (replicate (N + 1) [User, Assistant])"
    and c: "map chatId (v_allMessages vars) = replicate (2 * (N + 1)) (v_chatId vars0)"
    by simp_all
  from runTest_finish_Inr [OF fin] have m: "allMessages (conversation res) = v_allMessages vars"
    by simp
  from c have "length (map chatId (v_allMessages vars)) = 2 * (N + 1)" by (simp only: length_replicate)
  then have len: "length (v_allMessages vars) = 2 * (N + 1)" by simp
  from runTest_initial_contents [OF init] assms(1) obtain startTime0 wa apiResp0 wb a b where
    clock0: "Date_now env wp = (startTime0, wa)"
    and call0: "callEndpoint env (endpointUrl (config agent)) (headers (config agent))
             (formatInput env (extractTestMessage env planResult)
                (inputFormat (apiConfig (config agent)))) wa = (Inr apiResp0, wb)"
    and first: "v_allMessages vars0 = [a, b]"
    and ca: "content a = extractTestMessage env planResult"
    and cb: "content b = extractChatResponse env apiResp0 (rules (apiConfig (config agent)))"
    by auto
  from forEachTurn_messages [OF whole] first obtain suffix where
    all: "v_allMessages vars = [a, b] @ suffix" by auto
  have 4: "content (allMessages (conversation res) ! 0) = extractTestMessage env planResult"
    using m all ca by simp
  have 5: "content (allMessages (conversation res) ! 1)
              = extractChatResponse env firstResponse (rules (apiConfig (config agent)))"
    if "Date_now env wp = (startTime, w2)"
      and "callEndpoint env (endpointUrl (config agent)) (headers (config agent))
              (formatInput env (extractTestMessage env planResult)
                 (inputFormat (apiConfig (config agent)))) w2 = (Inr firstResponse, w3)"
    for startTime w2 firstResponse w3
    using that clock0 call0 m all cb by simp
  have 6: "content (allMessages (conversation res) ! (2 * (length before + 1)))
              = extractTestMessage env followUpResult \<and>
           content (allMessages (conversation res) ! (2 * (length before + 1) + 1))
              = extractChatResponse env apiResp (rules (apiConfig (config agent)))"
    if i: "runTest_initial env agent scen expected w = (Inr vars0', w0')"
      and p: "extractConversationPlan env planResult = Some (before @ plannedTurn # rest)"
      and prev: "forEachTurn env agent vars0' before w0' = (Inr vars1, wc)"
      and model: "chain_invoke env (followUp_prompt (v_chatResponse vars1) plannedTurn) wc
              = (Inr followUpResult, wd)"
      and clock: "Date_now env wd = (startTime, we)"
      and call: "callEndpoint env (endpointUrl (config agent)) (headers (config agent))
              (formatInput env (extractTestMessage env followUpResult)
                 (inputFormat (apiConfig (config agent)))) we = (Inr apiResp, wf)"
    for vars0' w0' before plannedTurn rest vars1 wc followUpResult wd startTime we apiResp wf
  proof -
    from i init have eq: "vars0' = vars0" "w0' = w0" by simp_all
    from whole plan p have "forEachTurn env agent vars0 (before @ plannedTurn # rest) w0 = (Inr vars, w1)"
      by simp
    with forEachTurn_append [OF prev [unfolded eq], of "plannedTurn # rest"]
    have "forEachTurn env agent vars1 (plannedTurn # rest) wc = (Inr vars, w1)" by simp
    then obtain v2 wt where
      turn: "followUpTurn env agent vars1 plannedTurn wc = (Inr v2, wt)"
      and after: "forEachTurn env agent v2 rest wt = (Inr vars, w1)"
      by (auto simp: bind_Inr)
    from followUpTurn_contents [OF turn] model clock call obtain m1 m2 where
      v2: "v_allMessages v2 = v_allMessages vars1 @ [m1, m2]"
      and c1: "content m1 = extractTestMessage env followUpResult"
      and c2: "content m2 = extractChatResponse env apiResp (rules (apiConfig (config agent)))"
      by auto
    from forEachTurn_messages [OF prev [unfolded eq]] first obtain s1 where
      s1: "v_allMessages vars1 = [a, b] @ s1" "length s1 = 2 * length before" by auto
    from forEachTurn_messages [OF after] obtain s2 where
      s2: "v_allMessages vars = v_allMessages v2 @ s2" by blast
    let ?pre = "[a, b] @ s1"
    from s1 v2 s2 have shape: "v_allMessages vars = ?pre @ (m1 # m2 # s2)" by simp
    from s1 have lp: "length ?pre = 2 * (length before + 1)" by simp
    from nth_after_prefix [OF lp, of m1 m2 s2] shape m
    have "allMessages (conversation res) ! (2 * (length before + 1)) = m1"
      and "allMessages (conversation res) ! (2 * (length before + 1) + 1) = m2"
      by (simp_all only:)
    with c1 c2 show ?thesis by (simp only:)
  qed
  from r c m len have 123: "length (allMessages (conversation res)) = 2 * (N + 1) \<and>
         map role (allMessages (conversation res)) = concat (replicate (N + 1) [User, Assistant]) \<and>
         (\<exists>cid. map chatId (allMessages (conversation res)) = replicate (2 * (N + 1)) cid)"
    by auto
  from 123 4 5 6 show ?thesis by blast
qed

theorem runTest_transcript_witness:
  "chain_invoke (sample_qa_env None) (plan_prompt ''s'' ''e'') 0 = (Inr ''hello'', 0) \<and>
   extractConversationPlan (sample_qa_env None) ''hello'' = Some [''ask again''] \<and>
   map_sum id (\<lambda>r. map role (allMessages (conversation (fst r))))
       (fst (runTest (sample_qa_env None) sample_agent ''s'' ''e'' 0))
     = Inr [User, Assistant, User, Assistant] \<and>
   map_sum id (\<lambda>r. map chatId (allMessages (conversation (fst r))))
       (fst (runTest (sample_qa_env None) sample_agent ''s'' ''e'' 0))
     = Inr [''uuid'', ''uuid'', ''uuid'', ''uuid''] \<and>
   map_sum id (\<lambda>r. map content (allMessages (conversation (fst r))))
       (fst (runTest (sample_qa_env None) sample_agent ''s'' ''e'' 0))
     = Inr [''hello'', ''first reply'', ''and then?'', ''second reply'']"
proof -
  have a: "chain_invoke (sample_qa_env None) (plan_prompt ''s'' ''e'') 0 = (Inr ''hello'', 0)"
    by (simp add: sample_qa_env_def)
  have b: "(1::nat) = (case extractConversationPlan (sample_qa_env None) ''hello'' of
                         None \<Rightarrow> 0 | Some plan \<Rightarrow> length plan)"
    by (simp add: sample_qa_env_def)
  have c: "extractConversationPlan (sample_qa_env None) ''hello'' = Some [''ask again'']"
    by (simp add: sample_qa_env_def)
  have c': "extractConversationPlan (sample_qa_env None) ''hello'' = Some ([] @ ''ask again'' # [])"
    by (simp add: sample_qa_env_def)
  have clock0: "Date_now (sample_qa_env None) 0 = (0, 0)"
    by (simp add: sample_qa_env_def)
  have call0: "callEndpoint (sample_qa_env None) (endpointUrl (config sample_agent))
      (headers (config sample_agent))
      (formatInput (sample_qa_env None)
         (extractTestMessage (sample_qa_env None) ''hello'')
         (inputFormat (apiConfig (config sample_agent)))) 0 = (Inr (JStr ''first reply''), 1)"
    by (simp add: sample_qa_env_def)
  have call1: "callEndpoint (sample_qa_env None) (endpointUrl (config sample_agent))
      (headers (config sample_agent))
      (formatInput (sample_qa_env None)
         (extractTestMessage (sample_qa_env None) ''and then?'')
         (inputFormat (apiConfig (config sample_agent)))) 1 = (Inr (JStr ''second reply''), 2)"
    by (simp add: sample_qa_env_def)
  note T = runTest_transcript [OF a sample_run b]
  from T have roles: "map role (allMessages (conversation (fst (projr (fst
      (runTest (sample_qa_env None) sample_agent ''s'' ''e'' 0))))))
        = [User, Assistant, User, Assistant]"
    by (simp add: sample_run)
  from T clock0 call0 have second: "content (allMessages (conversation (fst (projr (fst
      (runTest (sample_qa_env None) sample_agent ''s'' ''e'' 0))))) ! 1)
        = extractChatResponse (sample_qa_env None) (JStr ''first reply'')
            (rules (apiConfig (config sample_agent)))"
    by (simp only: sample_run fst_conv sum.sel)
  from T sample_initial [of None] c' sample_no_turns_before [of None]
    sample_followUp_model [of None] sample_followUp_clock [of None] call1
  have third: "content (allMessages (conversation (fst (projr (fst
      (runTest (sample_qa_env None) sample_agent ''s'' ''e'' 0))))) ! (2 * (length ([]::string list) + 1)))
        = extractTestMessage (sample_qa_env None) ''and then?''"
    by (simp only: sample_run fst_conv sum.sel)
  from a c roles second third show ?thesis by (simp add: sample_run)
qed

text \<open>
  C5. In a follow-up turn (the first turn and the turns before it have succeeded, the model
  has produced the next message), when the call to the target API throws, the whole run
  throws and returns no result. An \<open>Error\<close> named \<open>AbortError\<close> is replaced by a new
  \<open>Error\<close> with the message \<open>API request timed out after 10 seconds\<close>; any other thrown
  value reaches the caller as it was thrown.
\<close>

theorem runTest_followUp_call_fails:
  assumes "runTest_initial env agent scen expected w = (Inr vars0, w0)"
    and "v_conversationPlan vars0 = Some (before @ plannedTurn # rest)"
    and "forEachTurn env agent vars0 before w0 = (Inr vars1, w1)"
    and "chain_invoke env (followUp_prompt (v_chatResponse vars1) plannedTurn) w1
           = (Inr followUpResult, w2)"
    and "Date_now env w2 = (startTime, w3)"
    and "callEndpoint env (endpointUrl (config agent)) (headers (config agent))
           (formatInput env (extractTestMessage env followUpResult)
              (inputFormat (apiConfig (config agent)))) w3 = (Inl error, w4)"
  shows "runTest env agent scen expected w =
           (Inl (if instanceofError error \<and> error_name error = ''AbortError''
                 then ErrorObj ''Error'' ''API request timed out after 10 seconds''
                 else error), w4)"
proof -
  from followUpTurn_call_fails [OF assms(4) assms(5) assms(6)]
  have turn: "followUpTurn env agent vars1 plannedTurn w1 = (Inl (timeout_handler error), w4)" .
  have "forEachTurn env agent vars0 (before @ plannedTurn # rest) w0
          = forEachTurn env agent vars1 (plannedTurn # rest) w1"
    by (rule forEachTurn_append [OF assms(3)])
  also have "\<dots> = (Inl (timeout_handler error), w4)"
    using turn by (simp add: bind_def)
  finally have "followUps env agent vars0 w0 = (Inl (timeout_handler error), w4)"
    using assms(2) by (simp add: followUps_eq)
  with assms(1) have "runTest env agent scen expected w = (Inl (timeout_handler error), w4)"
    by (simp add: runTest_eq bind_def)
  then show ?thesis by (simp add: timeout_handler_def new_Error_def)
qed

theorem runTest_followUp_call_fails_witness:
  "runTest (sample_qa_env (Some abort_error)) sample_agent ''s'' ''e'' 0 =
     (Inl (ErrorObj ''Error'' ''API request timed out after 10 seconds''), 2) \<and>
   runTest (sample_qa_env (Some (ErrorObj ''TypeError'' ''fetch failed''))) sample_agent ''s'' ''e'' 0 =
     (Inl (ErrorObj ''TypeError'' ''fetch failed''), 2) \<and>
   runTest (sample_qa_env (Some (OtherValue ''AbortError''))) sample_agent ''s'' ''e'' 0 =
     (Inl (OtherValue ''AbortError''), 2)"
proof -
  have run: "runTest (sample_qa_env (Some e)) sample_agent ''s'' ''e'' 0 =
      (Inl (if instanceofError e \<and> error_name e = ''AbortError''
            then ErrorObj ''Error'' ''API request timed out after 10 seconds'' else e), 2)" for e
  proof -
    have call: "callEndpoint (sample_qa_env (Some e)) (endpointUrl (config sample_agent))
        (headers (config sample_agent))
        (formatInput (sample_qa_env (Some e))
           (extractTestMessage (sample_qa_env (Some e)) ''and then?'')
           (inputFormat (apiConfig (config sample_agent)))) 1 = (Inl e, 2)"
      by (simp add: sample_qa_env_def)
    show ?thesis
      by (rule runTest_followUp_call_fails [OF sample_initial sample_plan sample_no_turns_before
            sample_followUp_model sample_followUp_clock call])
  qed
  from run [of abort_error] run [of "ErrorObj ''TypeError'' ''fetch failed''"]
    run [of "OtherValue ''AbortError''"]
  show ?thesis by (simp add: abort_error_def)
qed

text \<open>
  C8. In every result that \<open>runTest\<close> returns, \<open>passedTest\<close> is the conjunction of
  \<open>formatValid\<close> and \<open>conditionMet\<close>.
\<close>

theorem runTest_passedTest:
  assumes "runTest env agent scen expected w = (Inr (res, agent'), w')"
  shows "passedTest (validation res) = (formatValid (validation res) \<and> conditionMet (validation res))"
proof -
  from runTest_Inr [OF assms] obtain vars w1 where
    "runTest_finish env agent scen expected vars w1 = (Inr (res, agent'), w')" by blast
  from runTest_finish_Inr [OF this] show ?thesis by blast
qed

theorem runTest_passedTest_witness:
  "map_sum id (\<lambda>r. passedTest (validation (fst r)))
       (fst (runTest (sample_qa_env None) sample_agent ''s'' ''e'' 0)) = Inr True \<and>
   map_sum id (\<lambda>r. formatValid (validation (fst r)))
       (fst (runTest (sample_qa_env None) sample_agent ''s'' ''e'' 0)) = Inr True \<and>
   map_sum id (\<lambda>r. conditionMet (validation (fst r)))
       (fst (runTest (sample_qa_env None) sample_agent ''s'' ''e'' 0)) = Inr True"
  using runTest_passedTest [OF sample_run] by (simp add: sample_run)

text \<open>
  C10. In a successful run with at least one follow-up turn, the returned record has
  \<open>humanMessage\<close> and \<open>rawInput\<close> from the first turn (the test message extracted from the
  planning result, and its formatted request body) and \<open>rawOutput\<close> and \<open>chatResponse\<close>
  from the last turn (the response of the last call to the target API, and the reply
  extracted from it).
\<close>

theorem runTest_record_mixes_turns:
  assumes "runTest env agent scen expected w = (Inr (res, agent'), w')"
    and "chain_invoke env (plan_prompt scen expected) w = (Inr planResult, wp)"
    and "runTest_initial env agent scen expected w = (Inr vars0, w0)"
    and "v_conversationPlan vars0 = Some (before @ [lastTurn])"
    and "forEachTurn env agent vars0 before w0 = (Inr vars1, w1)"
    and "chain_invoke env (followUp_prompt (v_chatResponse vars1) lastTurn) w1
           = (Inr followUpResult, w2)"
    and "Date_now env w2 = (startTime, w3)"
    and "callEndpoint env (endpointUrl (config agent)) (headers (config agent))
           (formatInput env (extractTestMessage env followUpResult)
              (inputFormat (apiConfig (config agent)))) w3 = (Inr lastResponse, w4)"
  shows "humanMessage (conversation res) = extractTestMessage env planResult \<and>
         rawInput (conversation res) =
           formatInput env (extractTestMessage env planResult)
             (inputFormat (apiConfig (config agent))) \<and>
         rawOutput (conversation res) = lastResponse \<and>
         chatResponse (conversation res) =
           extractChatResponse env lastResponse (rules (apiConfig (config agent)))"
proof -
  from runTest_Inr [OF assms(1)] assms(3) obtain vars w5 where
    loop: "followUps env agent vars0 w0 = (Inr vars, w5)"
    and fin: "runTest_finish env agent scen expected vars w5 = (Inr (res, agent'), w')"
    by auto
  from loop assms(4) have "forEachTurn env agent vars0 (before @ [lastTurn]) w0 = (Inr vars, w5)"
    by (simp add: followUps_eq)
  with forEachTurn_append [OF assms(5), of "[lastTurn]"]
  have "forEachTurn env agent vars1 [lastTurn] w1 = (Inr vars, w5)" by simp
  then have last: "followUpTurn env agent vars1 lastTurn w1 = (Inr vars, w5)"
    by (auto simp: bind_Inr ret_Inr)
  from followUpTurn_Inr [OF last] assms(6) assms(7) assms(8) have
    out: "v_apiResponse vars = lastResponse"
      "v_chatResponse vars = extractChatResponse env lastResponse (rules (apiConfig (config agent)))"
    and keep: "v_testMessage vars = v_testMessage vars1" "v_formattedInput vars = v_formattedInput vars1"
    by auto
  from forEachTurn_Inr [OF assms(5)] have
    keep1: "v_testMessage vars1 = v_testMessage vars0" "v_formattedInput vars1 = v_formattedInput vars0"
    by simp_all
  from runTest_initial_Inr [OF assms(3)] assms(2) have
    first: "v_testMessage vars0 = extractTestMessage env planResult"
      "v_formattedInput vars0 = formatInput env (extractTestMessage env planResult)
             (inputFormat (apiConfig (config agent)))"
    by auto
  from runTest_finish_Inr [OF fin] out keep keep1 first show ?thesis by simp
qed

theorem runTest_record_mixes_turns_witness:
  "map_sum id (\<lambda>r. humanMessage (conversation (fst r)))
       (fst (runTest (sample_qa_env None) sample_agent ''s'' ''e'' 0)) = Inr ''hello'' \<and>
   map_sum id (\<lambda>r. rawInput (conversation (fst r)))
       (fst (runTest (sample_qa_env None) sample_agent ''s'' ''e'' 0))
     = Inr (JObj [(''message'', JStr ''hello'')]) \<and>
   map_sum id (\<lambda>r. rawOutput (conversation (fst r)))
       (fst (runTest (sample_qa_env None) sample_agent ''s'' ''e'' 0))
     = Inr (JStr ''second reply'') \<and>
   map_sum id (\<lambda>r. chatResponse (conversation (fst r)))
       (fst (runTest (sample_qa_env None) sample_agent ''s'' ''e'' 0)) = Inr ''second reply''"
proof -
  have a: "chain_invoke (sample_qa_env None) (plan_prompt ''s'' ''e'') 0 = (Inr ''hello'', 0)"
    by (simp add: sample_qa_env_def)
  have b: "v_conversationPlan sample_vars0 = Some ([] @ [''ask again''])"
    by (simp add: sample_vars0_def)
  have call: "callEndpoint (sample_qa_env None) (endpointUrl (config sample_agent))
      (headers (config sample_agent))
      (formatInput (sample_qa_env None)
         (extractTestMessage (sample_qa_env None) ''and then?'')
         (inputFormat (apiConfig (config sample_agent)))) 1 = (Inr (JStr ''second reply''), 2)"
    by (simp add: sample_qa_env_def)
  from runTest_record_mixes_turns [OF sample_run a sample_initial b sample_no_turns_before
      sample_followUp_model sample_followUp_clock call]
  show ?thesis
    by (simp add: sample_run)
qed

end
